theory Spec2Isabelle
  imports Complex_Main
begin

section \<open>Optimization models\<close>

text \<open>
  The repository's artefacts are optimization models: the LP file of the avocado price
  model, and the models the notebooks build through the solver's Python interface.  A model
  is read as a mathematical program over the reals: a decimal literal of the LP file
  denotes the rational number it writes.

  A variable is a name with its index tuple, as the solver prints it: \<open>x[3]\<close> is
  \<open>Var ''x'' [3]\<close> and \<open>reg_features[0,8]\<close> is \<open>Var ''reg_features'' [0, 8]\<close>.
  A constraint name is kept the same way: \<open>R17\<close> is \<open>(''R'', [17])\<close> and
  \<open>LinearRegressionConstr1.linreg[2,0]\<close> is \<open>(''LinearRegressionConstr1.linreg'', [2, 0])\<close>.
\<close>

datatype var = Var string "nat list"

datatype sense = LESS_EQUAL | EQUAL | GREATER_EQUAL

datatype objsense = MAXIMIZE | MINIMIZE

type_synonym linexpr = "(real \<times> var) list"

record constr =
  ConstrName :: "string \<times> nat list"
  Sense :: sense
  RHS :: real
  Row :: linexpr

text \<open>
  The bounds of a variable; \<open>None\<close> is an infinite bound.  The forms of the LP
  format's \<open>Bounds\<close> section are written with their meaning: \<open>lb <= v <= ub\<close>,
  \<open>v = c\<close>, \<open>v <= ub\<close> (the lower bound stays at its default 0) and \<open>v free\<close>.
\<close>

datatype bound = Bound (LB: "real option") (VarName: var) (UB: "real option")

abbreviation Between :: "real \<Rightarrow> var \<Rightarrow> real \<Rightarrow> bound" where
  "Between l v u \<equiv> Bound (Some l) v (Some u)"

abbreviation Fixed :: "var \<Rightarrow> real \<Rightarrow> bound" where
  "Fixed v c \<equiv> Bound (Some c) v (Some c)"

abbreviation Upper :: "var \<Rightarrow> real \<Rightarrow> bound" where
  "Upper v u \<equiv> Bound (Some 0) v (Some u)"

abbreviation Free :: "var \<Rightarrow> bound" where
  "Free v \<equiv> Bound None v None"

text \<open>
  The objective is a linear part and a list of products \<open>c * u * v\<close>; as in the LP
  format, the sum of the products is halved (the bracket \<open>[ ... ] / 2\<close>).
\<close>

record model =
  ModelName :: string
  ModelSense :: objsense
  Obj :: linexpr
  QObj :: "(real \<times> var \<times> var) list"
  Constrs :: "constr list"
  Bounds :: "bound list"

subsection \<open>Meaning of a model\<close>

definition eval_row :: "(var \<Rightarrow> real) \<Rightarrow> linexpr \<Rightarrow> real" where
  "eval_row a e = sum_list (map (\<lambda>(c, v). c * a v) e)"

definition ObjVal :: "model \<Rightarrow> (var \<Rightarrow> real) \<Rightarrow> real" where
  "ObjVal m a =
     eval_row a (Obj m) + sum_list (map (\<lambda>(c, u, v). c * a u * a v) (QObj m)) / 2"

fun compare :: "sense \<Rightarrow> real \<Rightarrow> real \<Rightarrow> bool" where
  "compare LESS_EQUAL l r = (l \<le> r)"
| "compare EQUAL l r = (l = r)"
| "compare GREATER_EQUAL l r = (l \<ge> r)"

definition satisfies :: "(var \<Rightarrow> real) \<Rightarrow> constr \<Rightarrow> bool" where
  "satisfies a c = compare (Sense c) (eval_row a (Row c)) (RHS c)"

text \<open>
  A variable with no entry among the bounds has the default bounds \<open>0 \<le> v\<close>, no
  upper bound; the first entry for a variable counts.
\<close>

definition bound_of :: "model \<Rightarrow> var \<Rightarrow> bound" where
  "bound_of m v =
     (case find (\<lambda>b. VarName b = v) (Bounds m) of
        None \<Rightarrow> Bound (Some 0) v None
      | Some b \<Rightarrow> b)"

definition in_range :: "bound \<Rightarrow> real \<Rightarrow> bool" where
  "in_range b r =
     ((case LB b of None \<Rightarrow> True | Some l \<Rightarrow> l \<le> r) \<and>
      (case UB b of None \<Rightarrow> True | Some u \<Rightarrow> r \<le> u))"

definition in_bounds :: "model \<Rightarrow> (var \<Rightarrow> real) \<Rightarrow> var \<Rightarrow> bool" where
  "in_bounds m a v = in_range (bound_of m v) (a v)"

text \<open>The variables of a model: those it declares and those its rows and objective use.\<close>

definition Vars :: "model \<Rightarrow> var list" where
  "Vars m =
     remdups (map VarName (Bounds m) @ map snd (Obj m) @
       concat (map (\<lambda>(c, u, v). [u, v]) (QObj m)) @
       concat (map (\<lambda>c. map snd (Row c)) (Constrs m)))"

definition feasible :: "model \<Rightarrow> (var \<Rightarrow> real) \<Rightarrow> bool" where
  "feasible m a = (list_all (satisfies a) (Constrs m) \<and> list_all (in_bounds m a) (Vars m))"

section \<open>The avocado price model\<close>

text \<open>
  The LP file \<open>Avocado_Price_Allocation\<close>, section by section as it is written.
\<close>

definition Maximize_linear :: linexpr where
  "Maximize_linear =
     [(- 0.3, Var ''x'' [0]), (- 0.1, Var ''x'' [1]), (- 0.4, Var ''x'' [2]),
       (- 0.5, Var ''x'' [3]), (- 0.3, Var ''x'' [4]), (- 0.2, Var ''x'' [5]),
       (- 0.2, Var ''x'' [6]), (- 0.2, Var ''x'' [7]), (- 0.1, Var ''w'' [0]),
       (- 0.1, Var ''w'' [1]), (- 0.1, Var ''w'' [2]), (- 0.1, Var ''w'' [3]),
       (- 0.1, Var ''w'' [4]), (- 0.1, Var ''w'' [5]), (- 0.1, Var ''w'' [6]),
       (- 0.1, Var ''w'' [7])]"

definition Maximize_quadratic :: "(real \<times> var \<times> var) list" where
  "Maximize_quadratic =
     [(2, Var ''s'' [0], Var ''reg_features'' [0, 8]),
      (2, Var ''s'' [1], Var ''reg_features'' [1, 8]),
      (2, Var ''s'' [2], Var ''reg_features'' [2, 8]),
      (2, Var ''s'' [3], Var ''reg_features'' [3, 8]),
      (2, Var ''s'' [4], Var ''reg_features'' [4, 8]),
      (2, Var ''s'' [5], Var ''reg_features'' [5, 8]),
      (2, Var ''s'' [6], Var ''reg_features'' [6, 8]),
      (2, Var ''s'' [7], Var ''reg_features'' [7, 8])]"

definition Subject_To :: "constr list" where
  "Subject_To =
    [\<lparr>ConstrName = (''R'', [0]), Sense = EQUAL, RHS = 30,
      Row = [(1, Var ''x'' [0]), (1, Var ''x'' [1]), (1, Var ''x'' [2]), (1, Var ''x'' [3]),
             (1, Var ''x'' [4]), (1, Var ''x'' [5]), (1, Var ''x'' [6]), (1, Var ''x'' [7])]\<rparr>,
     \<lparr>ConstrName = (''R'', [1]), Sense = LESS_EQUAL, RHS = 0,
      Row = [(- 1, Var ''x'' [0]), (1, Var ''s'' [0])]\<rparr>,
     \<lparr>ConstrName = (''R'', [2]), Sense = LESS_EQUAL, RHS = 0,
      Row = [(- 1, Var ''x'' [1]), (1, Var ''s'' [1])]\<rparr>,
     \<lparr>ConstrName = (''R'', [3]), Sense = LESS_EQUAL, RHS = 0,
      Row = [(- 1, Var ''x'' [2]), (1, Var ''s'' [2])]\<rparr>,
     \<lparr>ConstrName = (''R'', [4]), Sense = LESS_EQUAL, RHS = 0,
      Row = [(- 1, Var ''x'' [3]), (1, Var ''s'' [3])]\<rparr>,
     \<lparr>ConstrName = (''R'', [5]), Sense = LESS_EQUAL, RHS = 0,
      Row = [(- 1, Var ''x'' [4]), (1, Var ''s'' [4])]\<rparr>,
     \<lparr>ConstrName = (''R'', [6]), Sense = LESS_EQUAL, RHS = 0,
      Row = [(- 1, Var ''x'' [5]), (1, Var ''s'' [5])]\<rparr>,
     \<lparr>ConstrName = (''R'', [7]), Sense = LESS_EQUAL, RHS = 0,
      Row = [(- 1, Var ''x'' [6]), (1, Var ''s'' [6])]\<rparr>,
     \<lparr>ConstrName = (''R'', [8]), Sense = LESS_EQUAL, RHS = 0,
      Row = [(- 1, Var ''x'' [7]), (1, Var ''s'' [7])]\<rparr>,
     \<lparr>ConstrName = (''R'', [9]), Sense = LESS_EQUAL, RHS = 0,
      Row = [(1, Var ''s'' [0]), (- 1, Var ''demand'' [0])]\<rparr>,
     \<lparr>ConstrName = (''R'', [10]), Sense = LESS_EQUAL, RHS = 0,
      Row = [(1, Var ''s'' [1]), (- 1, Var ''demand'' [1])]\<rparr>,
     \<lparr>ConstrName = (''R'', [11]), Sense = LESS_EQUAL, RHS = 0,
      Row = [(1, Var ''s'' [2]), (- 1, Var ''demand'' [2])]\<rparr>,
     \<lparr>ConstrName = (''R'', [12]), Sense = LESS_EQUAL, RHS = 0,
      Row = [(1, Var ''s'' [3]), (- 1, Var ''demand'' [3])]\<rparr>,
     \<lparr>ConstrName = (''R'', [13]), Sense = LESS_EQUAL, RHS = 0,
      Row = [(1, Var ''s'' [4]), (- 1, Var ''demand'' [4])]\<rparr>,
     \<lparr>ConstrName = (''R'', [14]), Sense = LESS_EQUAL, RHS = 0,
      Row = [(1, Var ''s'' [5]), (- 1, Var ''demand'' [5])]\<rparr>,
     \<lparr>ConstrName = (''R'', [15]), Sense = LESS_EQUAL, RHS = 0,
      Row = [(1, Var ''s'' [6]), (- 1, Var ''demand'' [6])]\<rparr>,
     \<lparr>ConstrName = (''R'', [16]), Sense = LESS_EQUAL, RHS = 0,
      Row = [(1, Var ''s'' [7]), (- 1, Var ''demand'' [7])]\<rparr>,
     \<lparr>ConstrName = (''R'', [17]), Sense = EQUAL, RHS = 0,
      Row = [(- 1, Var ''x'' [0]), (1, Var ''s'' [0]), (1, Var ''w'' [0])]\<rparr>,
     \<lparr>ConstrName = (''R'', [18]), Sense = EQUAL, RHS = 0,
      Row = [(- 1, Var ''x'' [1]), (1, Var ''s'' [1]), (1, Var ''w'' [1])]\<rparr>,
     \<lparr>ConstrName = (''R'', [19]), Sense = EQUAL, RHS = 0,
      Row = [(- 1, Var ''x'' [2]), (1, Var ''s'' [2]), (1, Var ''w'' [2])]\<rparr>,
     \<lparr>ConstrName = (''R'', [20]), Sense = EQUAL, RHS = 0,
      Row = [(- 1, Var ''x'' [3]), (1, Var ''s'' [3]), (1, Var ''w'' [3])]\<rparr>,
     \<lparr>ConstrName = (''R'', [21]), Sense = EQUAL, RHS = 0,
      Row = [(- 1, Var ''x'' [4]), (1, Var ''s'' [4]), (1, Var ''w'' [4])]\<rparr>,
     \<lparr>ConstrName = (''R'', [22]), Sense = EQUAL, RHS = 0,
      Row = [(- 1, Var ''x'' [5]), (1, Var ''s'' [5]), (1, Var ''w'' [5])]\<rparr>,
     \<lparr>ConstrName = (''R'', [23]), Sense = EQUAL, RHS = 0,
      Row = [(- 1, Var ''x'' [6]), (1, Var ''s'' [6]), (1, Var ''w'' [6])]\<rparr>,
     \<lparr>ConstrName = (''R'', [24]), Sense = EQUAL, RHS = 0,
      Row = [(- 1, Var ''x'' [7]), (1, Var ''s'' [7]), (1, Var ''w'' [7])]\<rparr>,
     \<lparr>ConstrName = (''LinearRegressionConstr1.linreg'', [0, 0]), Sense = EQUAL, RHS = 5.439310052165032,
      Row = [(0.2426931536778747, Var ''reg_features'' [0, 0]),
             (- 1.433019836643237, Var ''reg_features'' [0, 1]),
             (3.01924379063788, Var ''reg_features'' [0, 2]),
             (1.815032872390411, Var ''reg_features'' [0, 3]),
             (- 1.713812073973461, Var ''reg_features'' [0, 4]),
             (- 0.5839901666611677, Var ''reg_features'' [0, 5]),
             (- 2.601799448641272, Var ''reg_features'' [0, 6]),
             (- 0.1607693023184433, Var ''reg_features'' [0, 7]),
             (2.203770104890248, Var ''reg_features'' [0, 8]),
             (- 0.5485105058308409, Var ''reg_features'' [0, 9]), (1, Var ''demand'' [0])]\<rparr>,
     \<lparr>ConstrName = (''LinearRegressionConstr1.linreg'', [1, 0]), Sense = EQUAL, RHS = 5.439310052165032,
      Row = [(0.2426931536778747, Var ''reg_features'' [1, 0]),
             (- 1.433019836643237, Var ''reg_features'' [1, 1]),
             (3.01924379063788, Var ''reg_features'' [1, 2]),
             (1.815032872390411, Var ''reg_features'' [1, 3]),
             (- 1.713812073973461, Var ''reg_features'' [1, 4]),
             (- 0.5839901666611677, Var ''reg_features'' [1, 5]),
             (- 2.601799448641272, Var ''reg_features'' [1, 6]),
             (- 0.1607693023184433, Var ''reg_features'' [1, 7]),
             (2.203770104890248, Var ''reg_features'' [1, 8]),
             (- 0.5485105058308409, Var ''reg_features'' [1, 9]), (1, Var ''demand'' [1])]\<rparr>,
     \<lparr>ConstrName = (''LinearRegressionConstr1.linreg'', [2, 0]), Sense = EQUAL, RHS = 5.439310052165032,
      Row = [(0.2426931536778747, Var ''reg_features'' [2, 0]),
             (- 1.433019836643237, Var ''reg_features'' [2, 1]),
             (3.01924379063788, Var ''reg_features'' [2, 2]),
             (1.815032872390411, Var ''reg_features'' [2, 3]),
             (- 1.713812073973461, Var ''reg_features'' [2, 4]),
             (- 0.5839901666611677, Var ''reg_features'' [2, 5]),
             (- 2.601799448641272, Var ''reg_features'' [2, 6]),
             (- 0.1607693023184433, Var ''reg_features'' [2, 7]),
             (2.203770104890248, Var ''reg_features'' [2, 8]),
             (- 0.5485105058308409, Var ''reg_features'' [2, 9]), (1, Var ''demand'' [2])]\<rparr>,
     \<lparr>ConstrName = (''LinearRegressionConstr1.linreg'', [3, 0]), Sense = EQUAL, RHS = 5.439310052165032,
      Row = [(0.2426931536778747, Var ''reg_features'' [3, 0]),
             (- 1.433019836643237, Var ''reg_features'' [3, 1]),
             (3.01924379063788, Var ''reg_features'' [3, 2]),
             (1.815032872390411, Var ''reg_features'' [3, 3]),
             (- 1.713812073973461, Var ''reg_features'' [3, 4]),
             (- 0.5839901666611677, Var ''reg_features'' [3, 5]),
             (- 2.601799448641272, Var ''reg_features'' [3, 6]),
             (- 0.1607693023184433, Var ''reg_features'' [3, 7]),
             (2.203770104890248, Var ''reg_features'' [3, 8]),
             (- 0.5485105058308409, Var ''reg_features'' [3, 9]), (1, Var ''demand'' [3])]\<rparr>,
     \<lparr>ConstrName = (''LinearRegressionConstr1.linreg'', [4, 0]), Sense = EQUAL, RHS = 5.439310052165032,
      Row = [(0.2426931536778747, Var ''reg_features'' [4, 0]),
             (- 1.433019836643237, Var ''reg_features'' [4, 1]),
             (3.01924379063788, Var ''reg_features'' [4, 2]),
             (1.815032872390411, Var ''reg_features'' [4, 3]),
             (- 1.713812073973461, Var ''reg_features'' [4, 4]),
             (- 0.5839901666611677, Var ''reg_features'' [4, 5]),
             (- 2.601799448641272, Var ''reg_features'' [4, 6]),
             (- 0.1607693023184433, Var ''reg_features'' [4, 7]),
             (2.203770104890248, Var ''reg_features'' [4, 8]),
             (- 0.5485105058308409, Var ''reg_features'' [4, 9]), (1, Var ''demand'' [4])]\<rparr>,
     \<lparr>ConstrName = (''LinearRegressionConstr1.linreg'', [5, 0]), Sense = EQUAL, RHS = 5.439310052165032,
      Row = [(0.2426931536778747, Var ''reg_features'' [5, 0]),
             (- 1.433019836643237, Var ''reg_features'' [5, 1]),
             (3.01924379063788, Var ''reg_features'' [5, 2]),
             (1.815032872390411, Var ''reg_features'' [5, 3]),
             (- 1.713812073973461, Var ''reg_features'' [5, 4]),
             (- 0.5839901666611677, Var ''reg_features'' [5, 5]),
             (- 2.601799448641272, Var ''reg_features'' [5, 6]),
             (- 0.1607693023184433, Var ''reg_features'' [5, 7]),
             (2.203770104890248, Var ''reg_features'' [5, 8]),
             (- 0.5485105058308409, Var ''reg_features'' [5, 9]), (1, Var ''demand'' [5])]\<rparr>,
     \<lparr>ConstrName = (''LinearRegressionConstr1.linreg'', [6, 0]), Sense = EQUAL, RHS = 5.439310052165032,
      Row = [(0.2426931536778747, Var ''reg_features'' [6, 0]),
             (- 1.433019836643237, Var ''reg_features'' [6, 1]),
             (3.01924379063788, Var ''reg_features'' [6, 2]),
             (1.815032872390411, Var ''reg_features'' [6, 3]),
             (- 1.713812073973461, Var ''reg_features'' [6, 4]),
             (- 0.5839901666611677, Var ''reg_features'' [6, 5]),
             (- 2.601799448641272, Var ''reg_features'' [6, 6]),
             (- 0.1607693023184433, Var ''reg_features'' [6, 7]),
             (2.203770104890248, Var ''reg_features'' [6, 8]),
             (- 0.5485105058308409, Var ''reg_features'' [6, 9]), (1, Var ''demand'' [6])]\<rparr>,
     \<lparr>ConstrName = (''LinearRegressionConstr1.linreg'', [7, 0]), Sense = EQUAL, RHS = 5.439310052165032,
      Row = [(0.2426931536778747, Var ''reg_features'' [7, 0]),
             (- 1.433019836643237, Var ''reg_features'' [7, 1]),
             (3.01924379063788, Var ''reg_features'' [7, 2]),
             (1.815032872390411, Var ''reg_features'' [7, 3]),
             (- 1.713812073973461, Var ''reg_features'' [7, 4]),
             (- 0.5839901666611677, Var ''reg_features'' [7, 5]),
             (- 2.601799448641272, Var ''reg_features'' [7, 6]),
             (- 0.1607693023184433, Var ''reg_features'' [7, 7]),
             (2.203770104890248, Var ''reg_features'' [7, 8]),
             (- 0.5485105058308409, Var ''reg_features'' [7, 9]), (1, Var ''demand'' [7])]\<rparr>]"

definition Bounds_section :: "bound list" where
  "Bounds_section =
    [Between 2.06357351 (Var ''x'' [0]) 7.094764730000001,
     Between 1.84544313 (Var ''x'' [1]) 6.168571610000001,
     Between 2.36442449 (Var ''x'' [2]) 8.836406220000001,
     Between 0.2196899 (Var ''x'' [3]) 0.91798395,
     Between 3.68713018 (Var ''x'' [4]) 10.32317459,
     Between 2.1977637 (Var ''x'' [5]) 7.81047462,
     Between 3.26010217 (Var ''x'' [6]) 11.27474911,
     Between 1.05893809 (Var ''x'' [7]) 3.57549921,
     Fixed (Var ''reg_features'' [0, 0]) 0,
     Fixed (Var ''reg_features'' [0, 1]) 0,
     Fixed (Var ''reg_features'' [0, 2]) 0,
     Fixed (Var ''reg_features'' [0, 3]) 0,
     Fixed (Var ''reg_features'' [0, 4]) 0,
     Fixed (Var ''reg_features'' [0, 5]) 0,
     Fixed (Var ''reg_features'' [0, 6]) 0,
     Fixed (Var ''reg_features'' [0, 7]) 7,
     Upper (Var ''reg_features'' [0, 8]) 2,
     Fixed (Var ''reg_features'' [0, 9]) 1,
     Fixed (Var ''reg_features'' [1, 0]) 1,
     Fixed (Var ''reg_features'' [1, 1]) 0,
     Fixed (Var ''reg_features'' [1, 2]) 0,
     Fixed (Var ''reg_features'' [1, 3]) 0,
     Fixed (Var ''reg_features'' [1, 4]) 0,
     Fixed (Var ''reg_features'' [1, 5]) 0,
     Fixed (Var ''reg_features'' [1, 6]) 0,
     Fixed (Var ''reg_features'' [1, 7]) 7,
     Upper (Var ''reg_features'' [1, 8]) 2,
     Fixed (Var ''reg_features'' [1, 9]) 1,
     Fixed (Var ''reg_features'' [2, 0]) 0,
     Fixed (Var ''reg_features'' [2, 1]) 1,
     Fixed (Var ''reg_features'' [2, 2]) 0,
     Fixed (Var ''reg_features'' [2, 3]) 0,
     Fixed (Var ''reg_features'' [2, 4]) 0,
     Fixed (Var ''reg_features'' [2, 5]) 0,
     Fixed (Var ''reg_features'' [2, 6]) 0,
     Fixed (Var ''reg_features'' [2, 7]) 7,
     Upper (Var ''reg_features'' [2, 8]) 2,
     Fixed (Var ''reg_features'' [2, 9]) 1,
     Fixed (Var ''reg_features'' [3, 0]) 0,
     Fixed (Var ''reg_features'' [3, 1]) 0,
     Fixed (Var ''reg_features'' [3, 2]) 1,
     Fixed (Var ''reg_features'' [3, 3]) 0,
     Fixed (Var ''reg_features'' [3, 4]) 0,
     Fixed (Var ''reg_features'' [3, 5]) 0,
     Fixed (Var ''reg_features'' [3, 6]) 0,
     Fixed (Var ''reg_features'' [3, 7]) 7,
     Upper (Var ''reg_features'' [3, 8]) 2,
     Fixed (Var ''reg_features'' [3, 9]) 1,
     Fixed (Var ''reg_features'' [4, 0]) 0,
     Fixed (Var ''reg_features'' [4, 1]) 0,
     Fixed (Var ''reg_features'' [4, 2]) 0,
     Fixed (Var ''reg_features'' [4, 3]) 0,
     Fixed (Var ''reg_features'' [4, 4]) 1,
     Fixed (Var ''reg_features'' [4, 5]) 0,
     Fixed (Var ''reg_features'' [4, 6]) 0,
     Fixed (Var ''reg_features'' [4, 7]) 7,
     Upper (Var ''reg_features'' [4, 8]) 2,
     Fixed (Var ''reg_features'' [4, 9]) 1,
     Fixed (Var ''reg_features'' [5, 0]) 0,
     Fixed (Var ''reg_features'' [5, 1]) 0,
     Fixed (Var ''reg_features'' [5, 2]) 0,
     Fixed (Var ''reg_features'' [5, 3]) 0,
     Fixed (Var ''reg_features'' [5, 4]) 0,
     Fixed (Var ''reg_features'' [5, 5]) 1,
     Fixed (Var ''reg_features'' [5, 6]) 0,
     Fixed (Var ''reg_features'' [5, 7]) 7,
     Upper (Var ''reg_features'' [5, 8]) 2,
     Fixed (Var ''reg_features'' [5, 9]) 1,
     Fixed (Var ''reg_features'' [6, 0]) 0,
     Fixed (Var ''reg_features'' [6, 1]) 0,
     Fixed (Var ''reg_features'' [6, 2]) 0,
     Fixed (Var ''reg_features'' [6, 3]) 0,
     Fixed (Var ''reg_features'' [6, 4]) 0,
     Fixed (Var ''reg_features'' [6, 5]) 0,
     Fixed (Var ''reg_features'' [6, 6]) 1,
     Fixed (Var ''reg_features'' [6, 7]) 7,
     Upper (Var ''reg_features'' [6, 8]) 2,
     Fixed (Var ''reg_features'' [6, 9]) 1,
     Fixed (Var ''reg_features'' [7, 0]) 0,
     Fixed (Var ''reg_features'' [7, 1]) 0,
     Fixed (Var ''reg_features'' [7, 2]) 0,
     Fixed (Var ''reg_features'' [7, 3]) 1,
     Fixed (Var ''reg_features'' [7, 4]) 0,
     Fixed (Var ''reg_features'' [7, 5]) 0,
     Fixed (Var ''reg_features'' [7, 6]) 0,
     Fixed (Var ''reg_features'' [7, 7]) 7,
     Upper (Var ''reg_features'' [7, 8]) 2,
     Fixed (Var ''reg_features'' [7, 9]) 1,
     Free (Var ''demand'' [0]),
     Free (Var ''demand'' [1]),
     Free (Var ''demand'' [2]),
     Free (Var ''demand'' [3]),
     Free (Var ''demand'' [4]),
     Free (Var ''demand'' [5]),
     Free (Var ''demand'' [6]),
     Free (Var ''demand'' [7])]"

definition Avocado_Price_Allocation :: model where
  "Avocado_Price_Allocation =
     \<lparr>ModelName = ''Avocado_Price_Allocation'', ModelSense = MAXIMIZE,
      Obj = Maximize_linear, QObj = Maximize_quadratic,
      Constrs = Subject_To, Bounds = Bounds_section\<rparr>"

subsection \<open>The rows of the model, by family\<close>

text \<open>
  The constraint rows of the LP file fall into five families, one row of each per region
  \<open>i\<close> but for the first: the supply constraint of the notebook's
  \<open>m.addConstr(x.sum() == B)\<close> with \<open>B = 30\<close> (\<open>R0\<close>); the rows of
  \<open>gppd.add_constrs(m, s, gp.GRB.LESS_EQUAL, x)\<close> (\<open>R1\<close> to \<open>R8\<close>) and of
  \<open>gppd.add_constrs(m, s, gp.GRB.LESS_EQUAL, d)\<close> (\<open>R9\<close> to \<open>R16\<close>); the rows of
  \<open>gppd.add_constrs(m, w, gp.GRB.EQUAL, x - s)\<close> (\<open>R17\<close> to \<open>R24\<close>); and the rows
  \<open>LinearRegressionConstr1.linreg[i,0]\<close> of the regression.  Each family is written
  here once, for any \<open>i\<close>, as the file writes its rows.
\<close>

definition total_supply :: constr where
  "total_supply =
     \<lparr>ConstrName = (''R'', [0]), Sense = EQUAL, RHS = 30,
      Row = map (\<lambda>i. (1, Var ''x'' [i])) [0..<8]\<rparr>"

definition sold_le_allocated :: "nat \<Rightarrow> constr" where
  "sold_le_allocated i =
     \<lparr>ConstrName = (''R'', [1 + i]), Sense = LESS_EQUAL, RHS = 0,
      Row = [(- 1, Var ''x'' [i]), (1, Var ''s'' [i])]\<rparr>"

definition sold_le_demand :: "nat \<Rightarrow> constr" where
  "sold_le_demand i =
     \<lparr>ConstrName = (''R'', [9 + i]), Sense = LESS_EQUAL, RHS = 0,
      Row = [(1, Var ''s'' [i]), (- 1, Var ''demand'' [i])]\<rparr>"

definition wastage :: "nat \<Rightarrow> constr" where
  "wastage i =
     \<lparr>ConstrName = (''R'', [17 + i]), Sense = EQUAL, RHS = 0,
      Row = [(- 1, Var ''x'' [i]), (1, Var ''s'' [i]), (1, Var ''w'' [i])]\<rparr>"

definition linreg_coefficients :: "real list" where
  "linreg_coefficients =
     [0.2426931536778747, - 1.433019836643237, 3.01924379063788, 1.815032872390411,
      - 1.713812073973461, - 0.5839901666611677, - 2.601799448641272,
      - 0.1607693023184433, 2.203770104890248, - 0.5485105058308409]"

definition linreg :: "nat \<Rightarrow> constr" where
  "linreg i =
     \<lparr>ConstrName = (''LinearRegressionConstr1.linreg'', [i, 0]), Sense = EQUAL,
      RHS = 5.439310052165032,
      Row = map2 (\<lambda>c j. (c, Var ''reg_features'' [i, j])) linreg_coefficients [0..<10] @
            [(1, Var ''demand'' [i])]\<rparr>"

text \<open>Lookups in a model: the constraints of a given name, and a variable's coefficient in a row.\<close>

definition constrs_named :: "model \<Rightarrow> string \<times> nat list \<Rightarrow> constr list" where
  "constrs_named m n = filter (\<lambda>c. ConstrName c = n) (Constrs m)"

definition getCoeff :: "constr \<Rightarrow> var \<Rightarrow> real" where
  "getCoeff c v = sum_list (map fst (filter (\<lambda>(k, u). u = v) (Row c)))"

definition var_family :: "string \<Rightarrow> var \<Rightarrow> bool" where
  "var_family n v = (case v of Var n' idx \<Rightarrow> n' = n)"

subsection \<open>The regression\<close>

text \<open>
  A fitted \<open>LinearRegression\<close> of scikit-learn holds a coefficient vector and an
  intercept (its attributes \<^verbatim>\<open>coef_\<close> and \<^verbatim>\<open>intercept_\<close>), and predicts
  \<open>x \<cdot> coef + intercept\<close> on a row \<open>x\<close> of features.
\<close>

record LinearRegression =
  coef :: "real list"
  intercept :: real

definition predict :: "LinearRegression \<Rightarrow> real list \<Rightarrow> real" where
  "predict lr x = sum_list (map2 (\<lambda>c v. c * v) (coef lr) x) + intercept lr"

text \<open>
  The regression of the avocado model.  The training data is downloaded by the notebook, so
  the fitted numbers appear in the sources only as the rows of the LP file, which write
  \<open>demand = features \<cdot> coef + intercept\<close> with the variables on the left:
  \<open>- coef \<cdot> reg_features[i,:] + demand[i] = intercept\<close>.
\<close>

definition lin_reg :: LinearRegression where
  "lin_reg =
     \<lparr>coef = [- 0.2426931536778747, 1.433019836643237, - 3.01924379063788,
               - 1.815032872390411, 1.713812073973461, 0.5839901666611677,
               2.601799448641272, 0.1607693023184433, - 2.203770104890248,
               0.5485105058308409],
      intercept = 5.439310052165032\<rparr>"

text \<open>The input matrix and the output vector of the regression in the avocado model.\<close>

definition reg_features :: "var list list" where
  "reg_features = map (\<lambda>i. map (\<lambda>j. Var ''reg_features'' [i, j]) [0..<10]) [0..<8]"

definition demand :: "var list" where
  "demand = map (\<lambda>i. Var ''demand'' [i]) [0..<8]"

subsection \<open>The data of the avocado model\<close>

text \<open>
  The notebook's parameters as the LP file shows them, region by region in the order of
  the rows: the transport costs \<open>c_transport\<close> and the cost of waste \<open>c_waste\<close>
  (the notebook gives both), the delivery bounds \<open>min_delivery\<close> and
  \<open>max_delivery\<close> (computed by the notebook from the data set, and written in the
  \<open>Bounds\<close> section), and, for each row of the feature matrix, the column of its region
  indicator that is 1 (none for the first region: the encoding drops it).
\<close>

definition c_transport :: "real list" where
  "c_transport = [0.3, 0.1, 0.4, 0.5, 0.3, 0.2, 0.2, 0.2]"

definition c_waste :: real where
  "c_waste = 0.1"

definition min_delivery :: "real list" where
  "min_delivery =
     [2.06357351, 1.84544313, 2.36442449, 0.2196899, 3.68713018, 2.1977637, 3.26010217,
      1.05893809]"

definition max_delivery :: "real list" where
  "max_delivery =
     [7.094764730000001, 6.168571610000001, 8.836406220000001, 0.91798395, 10.32317459,
      7.81047462, 11.27474911, 3.57549921]"

definition region_column :: "nat option list" where
  "region_column = [None, Some 0, Some 1, Some 2, Some 4, Some 5, Some 6, Some 3]"

text \<open>
  The bounds of the feature matrix, entry by entry: the year column 7 is fixed to 7, the
  peak column 9 to 1, a region column to 1 or 0, and the price column 8 ranges up to 2.
\<close>

definition feature_bound :: "nat \<Rightarrow> nat \<Rightarrow> bound" where
  "feature_bound i j =
     (if j = 8 then Upper (Var ''reg_features'' [i, j]) 2
      else if j = 7 then Fixed (Var ''reg_features'' [i, j]) 7
      else if j = 9 \<or> region_column ! i = Some j then Fixed (Var ''reg_features'' [i, j]) 1
      else Fixed (Var ''reg_features'' [i, j]) 0)"

text \<open>
  A point of the model, to evaluate statements on: every price is 1, half of each
  allocation is sold and half wasted, and the demand is the regression's prediction.
\<close>

definition avocado_features :: "nat \<Rightarrow> real list" where
  "avocado_features i =
     map (\<lambda>j. if j = 7 then 7
               else if j = 8 \<or> j = 9 \<or> region_column ! i = Some j then 1 else 0) [0..<10]"

definition avocado_point :: "var \<Rightarrow> real" where
  "avocado_point v =
     (case v of Var n idx \<Rightarrow>
        if n = ''x'' then [4, 4, 5, 0.5, 5, 4, 5, 2.5] ! hd idx
        else if n = ''s'' \<or> n = ''w'' then [2, 2, 2.5, 0.25, 2.5, 2, 2.5, 1.25] ! hd idx
        else if n = ''reg_features'' then avocado_features (idx ! 0) ! (idx ! 1)
        else if n = ''demand'' then predict lin_reg (avocado_features (hd idx))
        else 0)"

text \<open>The variables of the avocado model, as a set.\<close>

definition avocado_vars :: "var set" where
  "avocado_vars =
     (\<Union>i<8. {Var ''x'' [i], Var ''s'' [i], Var ''w'' [i], Var ''demand'' [i]}) \<union>
     (\<Union>i<8. \<Union>j<10. {Var ''reg_features'' [i, j]})"

section \<open>The solver's Python interface\<close>

text \<open>
  The notebooks build their models through the Python interface of the solver.  The calls
  they make act on the same \<open>model\<close> record.  \<open>gp.Model(name)\<close> is the empty model;
  \<open>m.addMVar(shape, lb, ub, name)\<close> declares one variable per entry of the shape, all
  with the same bounds (\<open>None\<close> for an infinite one); \<open>m.setObjective(expr, sense)\<close>
  replaces the objective.  \<open>m.update()\<close> changes nothing in the model.
\<close>

definition Model_init :: "string \<Rightarrow> model" where
  "Model_init n =
     \<lparr>ModelName = n, ModelSense = MINIMIZE, Obj = [], QObj = [], Constrs = [], Bounds = []\<rparr>"

definition addMVar :: "model \<Rightarrow> nat \<times> nat \<Rightarrow> real option \<Rightarrow> real option \<Rightarrow> string \<Rightarrow> model" where
  "addMVar m shape lb ub n =
     m\<lparr>Bounds := Bounds m @
        concat (map (\<lambda>i. map (\<lambda>j. Bound lb (Var n [i, j]) ub) [0..<snd shape]) [0..<fst shape])\<rparr>"

definition setObjective :: "model \<Rightarrow> linexpr \<Rightarrow> objsense \<Rightarrow> model" where
  "setObjective m e sn = m\<lparr>Obj := e, QObj := [], ModelSense := sn\<rparr>"

text \<open>
  The two sides of a constraint are affine expressions, a linear part and a constant, or
  matrices of them.  \<open>MVar n shape\<close> is the matrix variable as an expression;
  \<open>msub E A\<close> is \<open>E - A\<close> and \<open>mneg_add E A\<close> is \<open>-E + A\<close> for an array \<open>A\<close> of
  numbers of the same shape; \<open>msum E\<close> is \<open>E.sum()\<close>.
\<close>

type_synonym affine = "linexpr \<times> real"

definition eval_affine :: "(var \<Rightarrow> real) \<Rightarrow> affine \<Rightarrow> real" where
  "eval_affine a e = eval_row a (fst e) + snd e"

definition MVar :: "string \<Rightarrow> nat \<times> nat \<Rightarrow> affine list list" where
  "MVar n shape =
     map (\<lambda>i. map (\<lambda>j. ([(1, Var n [i, j])], 0)) [0..<snd shape]) [0..<fst shape]"

definition negate :: "linexpr \<Rightarrow> linexpr" where
  "negate e = map (\<lambda>(c, v). (- c, v)) e"

definition msub :: "affine list list \<Rightarrow> real list list \<Rightarrow> affine list list" where
  "msub E A = map2 (map2 (\<lambda>(t, c) x. (t, c - x))) E A"

definition mneg_add :: "affine list list \<Rightarrow> real list list \<Rightarrow> affine list list" where
  "mneg_add E A = map2 (map2 (\<lambda>(t, c) x. (negate t, - c + x))) E A"

definition msum :: "affine list list \<Rightarrow> affine" where
  "msum E = (concat (map fst (concat E)), sum_list (map snd (concat E)))"

definition const :: "real \<Rightarrow> affine" where
  "const c = ([], c)"

text \<open>
  \<open>m.addConstr(lhs sense rhs)\<close> stores the row with the variables on the left and the
  constant on the right, under the default name \<open>R\<close> followed by the row's position.  On
  matrices it stores one row per entry.
\<close>

definition as_row :: "nat \<Rightarrow> affine \<Rightarrow> sense \<Rightarrow> affine \<Rightarrow> constr" where
  "as_row k l sn r =
     \<lparr>ConstrName = (''R'', [k]), Sense = sn, RHS = snd r - snd l,
      Row = fst l @ negate (fst r)\<rparr>"

definition addConstr :: "model \<Rightarrow> affine \<Rightarrow> sense \<Rightarrow> affine \<Rightarrow> model" where
  "addConstr m l sn r = m\<lparr>Constrs := Constrs m @ [as_row (length (Constrs m)) l sn r]\<rparr>"

definition addMConstr :: "model \<Rightarrow> affine list list \<Rightarrow> sense \<Rightarrow> affine list list \<Rightarrow> model" where
  "addMConstr m L sn R =
     m\<lparr>Constrs := Constrs m @
        map (\<lambda>(k, l, r). as_row (length (Constrs m) + k) l sn r)
          (enumerate 0 (zip (concat L) (concat R)))\<rparr>"

section \<open>The adversarial example notebook\<close>

text \<open>
  The model of the notebook, up to the call that adds the network.  \<open>example\<close> is the
  1-by-784 slice \<open>X[26:27, :]\<close> of the data, given by its single row; \<open>n_labels\<close> is the
  second dimension of \<open>ex_prob\<close>; the data and the two labels are loaded or computed
  from a file that is not in the sources, so they are parameters.
\<close>

definition delta :: real where
  "delta = 5"

definition adversarial_mnist :: "real list \<Rightarrow> nat \<Rightarrow> nat \<Rightarrow> nat \<Rightarrow> model" where
  "adversarial_mnist example n_labels wrong_label right_label =
     (let shape = (1, length example);
          m = Model_init [];
          m = addMVar m shape (Some 0) (Some 1) ''x'';
          m = addMVar m (1, n_labels) None None ''y'';
          m = addMVar m shape (Some 0) (Some 1) ''abs_diff'';
          x = MVar ''x'' shape;
          abs_diff = MVar ''abs_diff'' shape;
          m = setObjective m [(1, Var ''y'' [0, wrong_label]), (- 1, Var ''y'' [0, right_label])]
                MAXIMIZE;
          m = addMConstr m abs_diff GREATER_EQUAL (msub x [example]);
          m = addMConstr m abs_diff GREATER_EQUAL (mneg_add x [example]);
          m = addConstr m (msum abs_diff) LESS_EQUAL (const delta)
      in m)"

text \<open>
  A later call may add variables and constraints to a model; \<open>extends m m'\<close> says that
  \<open>m'\<close> is \<open>m\<close> with more bounds and rows after its own.
\<close>

definition extends :: "model \<Rightarrow> model \<Rightarrow> bool" where
  "extends m m' =
     (take (length (Constrs m)) (Constrs m') = Constrs m \<and>
      take (length (Bounds m)) (Bounds m') = Bounds m)"

text \<open>
  A small instance to evaluate statements on: an image of three pixels, two labels, and a
  point of the model at distance 1.3 from the image.
\<close>

definition small_example :: "real list" where
  "small_example = [0.2, 0.9, 0]"

definition small_point :: "var \<Rightarrow> real" where
  "small_point v =
     (case v of Var n idx \<Rightarrow>
        if n = ''x'' then [0.5, 0.9, 1] ! (idx ! 1)
        else if n = ''abs_diff'' then [0.3, 0, 1] ! (idx ! 1)
        else 0)"

section \<open>The price optimization notebook\<close>

text \<open>
  The first notebook builds the avocado model through the data-frame interface of the
  solver: \<open>gppd.add_vars(m, data, name, lb, ub)\<close> declares one variable per row of
  \<open>data\<close>, and \<open>gppd.add_constrs(m, lhs, sense, rhs)\<close> stores one constraint per
  row.  A row of the data frame is addressed here by its position in \<open>regions\<close>, as
  the LP file does.  A series of variables is a list of expressions.  In the notebook the
  price of a region is a variable \<open>price\<close> of its own; in the LP file it is column 8
  of the feature matrix.
\<close>

definition regions :: "string list" where
  "regions =
     [''Great_Lakes'', ''Midsouth'', ''Northeast'', ''Northern_New_England'',
      ''SouthCentral'', ''Southeast'', ''West'', ''Plains'']"

definition B :: real where
  "B = 30"

definition a_min :: real where
  "a_min = 0"

definition a_max :: real where
  "a_max = 2"

definition add_vars ::
  "model \<Rightarrow> nat \<Rightarrow> string \<Rightarrow> (nat \<Rightarrow> real option) \<Rightarrow> (nat \<Rightarrow> real option) \<Rightarrow> model" where
  "add_vars m n name lb ub =
     m\<lparr>Bounds := Bounds m @ map (\<lambda>i. Bound (lb i) (Var name [i]) (ub i)) [0..<n]\<rparr>"

definition Series :: "string \<Rightarrow> nat \<Rightarrow> affine list" where
  "Series name n = map (\<lambda>i. ([(1, Var name [i])], 0)) [0..<n]"

definition series_minus :: "affine list \<Rightarrow> affine list \<Rightarrow> affine list" where
  "series_minus E F = map2 (\<lambda>(t, c) (t', c'). (t @ negate t', c - c')) E F"

definition add_constrs :: "model \<Rightarrow> affine list \<Rightarrow> sense \<Rightarrow> affine list \<Rightarrow> model" where
  "add_constrs m L sn R = addMConstr m [L] sn [R]"

text \<open>
  An objective with products.  The model record keeps the products as the LP format
  writes them, with doubled coefficients under a halved sum.
\<close>

definition setObjective_quadratic ::
  "model \<Rightarrow> (real \<times> var \<times> var) list \<Rightarrow> linexpr \<Rightarrow> objsense \<Rightarrow> model" where
  "setObjective_quadratic m q e sn =
     m\<lparr>Obj := e, QObj := map (\<lambda>(c, u, v). (2 * c, u, v)) q, ModelSense := sn\<rparr>"

text \<open>
  The model of the notebook up to the call that adds the regression: the variables
  \<open>price\<close>, \<open>x\<close>, \<open>s\<close>, \<open>w\<close> and \<open>demand\<close>, the objective
  \<open>(p * s).sum() - c_waste * w.sum() - (c_transport * x).sum()\<close>, the supply constraint
  and the constraints on sales and waste.
\<close>

definition price_optimization :: model where
  "price_optimization =
     (let n = length regions;
          m = Model_init ''Avocado_Price_Allocation'';
          m = add_vars m n ''price'' (\<lambda>i. Some a_min) (\<lambda>i. Some a_max);
          m = add_vars m n ''x'' (\<lambda>i. Some (min_delivery ! i)) (\<lambda>i. Some (max_delivery ! i));
          m = add_vars m n ''s'' (\<lambda>i. Some 0) (\<lambda>i. None);
          m = add_vars m n ''w'' (\<lambda>i. Some 0) (\<lambda>i. None);
          m = add_vars m n ''demand'' (\<lambda>i. None) (\<lambda>i. None);
          x = Series ''x'' n; s = Series ''s'' n; w = Series ''w'' n; d = Series ''demand'' n;
          m = setObjective_quadratic m
                (map (\<lambda>i. (1, Var ''price'' [i], Var ''s'' [i])) [0..<n])
                (map (\<lambda>i. (- c_waste, Var ''w'' [i])) [0..<n] @
                 map (\<lambda>i. (- (c_transport ! i), Var ''x'' [i])) [0..<n])
                MAXIMIZE;
          m = addConstr m (msum [x]) EQUAL (const B);
          m = add_constrs m s LESS_EQUAL x;
          m = add_constrs m s LESS_EQUAL d;
          m = add_constrs m w EQUAL (series_minus x s)
      in m)"

text \<open>
  Two rows are the same constraint when they agree in name, sense and right-hand side and
  their left-hand sides have the same value at every point (the LP file writes the terms of
  a row in the order of the variables).
\<close>

definition same_row :: "constr \<Rightarrow> constr \<Rightarrow> bool" where
  "same_row c c' =
     (ConstrName c = ConstrName c' \<and> Sense c = Sense c' \<and> RHS c = RHS c' \<and>
      (\<forall>a. eval_row a (Row c) = eval_row a (Row c')))"

section \<open>The predictor constraint object\<close>

text \<open>
  A notebook session: the model, the solution once the solver has returned one, and what
  has been printed.
\<close>

record session =
  Model :: model
  Solution :: "(var \<Rightarrow> real) option"
  stdout :: "(string \<times> nat) list"

text \<open>
  \<open>m.optimize()\<close> hands the model to the external solver.  Of the solver the
  development uses only that a solution it returns satisfies the model.
\<close>

inductive optimize :: "session \<Rightarrow> session \<Rightarrow> bool" where
  solved: "feasible (Model s) a \<Longrightarrow> optimize s (s\<lparr>Solution := Some a\<rparr>)"
| no_solution: "optimize s (s\<lparr>Solution := None\<rparr>)"

text \<open>
  Modelled from the spec: the object that \<open>add_predictor_constr\<close> returns (the package
  \<open>gurobi_ml\<close> is not among the sources).  It keeps the predictor, the input and output
  variables it links, and the bookkeeping of what the translation added.
\<close>

record pred_constr =
  predictor :: LinearRegression
  input_variables :: "var list list"
  output_variables :: "var list"
  added_vars :: nat
  added_constrs :: nat

text \<open>
  Modelled from the spec: the row that the translation of a linear regression adds for
  one input row \<open>xs\<close> and its output variable \<open>y\<close> (\<open>gurobi_ml\<close> is not among the
  sources; the spec: predictors are translated into algebraic constraints inside the model).
  The shape of the row and its name are those of the LP file's \<open>linreg\<close> rows.
\<close>

definition linreg_row :: "LinearRegression \<Rightarrow> nat \<Rightarrow> var list \<Rightarrow> var \<Rightarrow> constr" where
  "linreg_row lr i xs y =
     \<lparr>ConstrName = (''LinearRegressionConstr1.linreg'', [i, 0]), Sense = EQUAL,
      RHS = intercept lr,
      Row = map2 (\<lambda>c v. (- c, v)) (coef lr) xs @ [(1, y)]\<rparr>"

text \<open>
  Modelled from the spec: the name of a variable that the translation creates
  (\<open>gurobi_ml\<close> is not among the sources; the spec: matrix-variable creation).  In the
  solver a variable is an object, and one that is created is a new one whatever it is
  called.  Here variables are told apart by their names, so a created variable gets a name
  that none of the variables \<open>used\<close> has: the name asked for when it is free, and
  otherwise that name made longer than every name in use.
\<close>

definition new_name :: "var list \<Rightarrow> string \<Rightarrow> string" where
  "new_name used n =
     (if list_ex (var_family n) used
      then n @ replicate (Suc (foldr max (map (\<lambda>v. case v of Var n' idx \<Rightarrow> length n') used) 0))
                 (CHR ''_'')
      else n)"

text \<open>
  Modelled from the spec: \<open>add_predictor_constr(m, predictor, input_vars, output_vars)\<close>
  of \<open>gurobi_ml\<close>, which is not among the sources, for a linear regression with one
  output over a matrix of variables.  The spec: a purely structural translation (shape
  inference, matrix-variable creation) of a trained predictor into constraints of the
  model, with bookkeeping.  The output has one entry per input row; when no output
  variables are given they are created, unbounded, one per row, under a name that no
  variable of the model and no input variable has (the name \<open>output\<close> is the model's
  choice).  The spec does not say what happens when a row has not as many entries as the
  predictor has features, or the output not as many as there are rows: the model gives no
  result there.  Pipelines and the other families of predictors that the spec lists are
  not modelled: their translations are not among the sources.
\<close>

definition add_predictor_constr ::
  "session \<Rightarrow> LinearRegression \<Rightarrow> var list list \<Rightarrow> var list option \<Rightarrow>
     (session \<times> pred_constr) option" where
  "add_predictor_constr s lr input_vars output_vars =
     (let n = length input_vars;
          created = (case output_vars of
                       None \<Rightarrow>
                         map (\<lambda>i. Var (new_name (Vars (Model s) @ concat input_vars)
                                       ''LinearRegressionConstr1.output'') [i, 0]) [0..<n]
                     | Some ys \<Rightarrow> []);
          out = (case output_vars of None \<Rightarrow> created | Some ys \<Rightarrow> ys);
          rows = map (\<lambda>i. linreg_row lr i (input_vars ! i) (out ! i)) [0..<n]
      in if list_all (\<lambda>xs. length xs = length (coef lr)) input_vars \<and> length out = n
         then Some (s\<lparr>Model := (Model s)\<lparr>Bounds := Bounds (Model s) @ map Free created,
                                          Constrs := Constrs (Model s) @ rows\<rparr>\<rparr>,
                    \<lparr>predictor = lr, input_variables = input_vars, output_variables = out,
                     added_vars = length created, added_constrs = length rows\<rparr>)
         else None)"

text \<open>
  Modelled from the spec: \<open>pred_constr.get_error()\<close> of \<open>gurobi_ml\<close>, which is not
  among the sources.  The spec: the error measurement between predicted and modeled
  outputs.  The notebooks print its maximum as the maximum error of the approximation, so
  the error of a row is the distance between the prediction on the row's input values and
  the value of the row's output variable.  Without a solution there are no values.
\<close>

definition get_error :: "pred_constr \<Rightarrow> session \<Rightarrow> real list option" where
  "get_error pc s =
     (case Solution s of
        None \<Rightarrow> None
      | Some sol \<Rightarrow>
          Some (map2 (\<lambda>xs y. \<bar>predict (predictor pc) (map sol xs) - sol y\<bar>)
                  (input_variables pc) (output_variables pc)))"

text \<open>
  Modelled from the spec: \<open>pred_constr.print_stats()\<close> of \<open>gurobi_ml\<close>, which is not
  among the sources.  The spec: statistics printing, as bookkeeping; the notebooks: it
  displays what was added to the model.  A printed line is a label with its count.
\<close>

definition print_stats :: "pred_constr \<Rightarrow> session \<Rightarrow> session" where
  "print_stats pc s =
     s\<lparr>stdout := stdout s @
        [(''variables'', added_vars pc), (''constraints'', added_constrs pc)]\<rparr>"

text \<open>
  The avocado session before the regression is added: the model of the LP file without
  its \<open>linreg\<close> rows, not solved, nothing printed.
\<close>

definition avocado_before :: session where
  "avocado_before =
     \<lparr>Model = Avocado_Price_Allocation\<lparr>Constrs := take 25 Subject_To\<rparr>,
      Solution = None, stdout = []\<rparr>"

text \<open>
  The session after the call \<open>add_predictor_constr(m, lin_reg, reg_features, demand)\<close>,
  holding the model of the LP file, and the object the call returns.
\<close>

definition avocado_after :: session where
  "avocado_after = \<lparr>Model = Avocado_Price_Allocation, Solution = None, stdout = []\<rparr>"

definition avocado_pred_constr :: pred_constr where
  "avocado_pred_constr =
     \<lparr>predictor = lin_reg, input_variables = reg_features, output_variables = demand,
      added_vars = 0, added_constrs = 8\<rparr>"


section \<open>Properties of the avocado model\<close>

subsection \<open>The sections of the LP file, row by row\<close>

lemma upt_8: "[0..<8] = [0, 1, 2, 3, 4, 5, 6, 7]"
  by code_simp

lemma upt_10: "[0..<10] = [0, 1, 2, 3, 4, 5, 6, 7, 8, 9]"
  by code_simp

lemma less_8_cases: "i < 8 \<Longrightarrow> i \<in> {0, 1, 2, 3, 4, 5, 6, 7::nat}"
  by auto

lemma less_10_cases: "j < 10 \<Longrightarrow> j \<in> {0, 1, 2, 3, 4, 5, 6, 7, 8, 9::nat}"
  by auto

lemma Subject_To_rows:
  "Subject_To =
     total_supply # map sold_le_allocated [0..<8] @ map sold_le_demand [0..<8] @
     map wastage [0..<8] @ map linreg [0..<8]"
  by (simp add: upt_8 upt_10 Subject_To_def total_supply_def sold_le_allocated_def
      sold_le_demand_def wastage_def linreg_def linreg_coefficients_def)

lemma Bounds_section_rows:
  "Bounds_section =
     map (\<lambda>i. Between (min_delivery ! i) (Var ''x'' [i]) (max_delivery ! i)) [0..<8] @
     concat (map (\<lambda>i. map (feature_bound i) [0..<10]) [0..<8]) @
     map (\<lambda>i. Free (Var ''demand'' [i])) [0..<8]"
  by (simp add: upt_8 upt_10 Bounds_section_def min_delivery_def max_delivery_def
      feature_bound_def region_column_def)

lemma Maximize_linear_rows:
  "Maximize_linear =
     map (\<lambda>i. (- (c_transport ! i), Var ''x'' [i])) [0..<8] @
     map (\<lambda>i. (- c_waste, Var ''w'' [i])) [0..<8]"
  by (simp add: upt_8 Maximize_linear_def c_transport_def c_waste_def)

lemma Maximize_quadratic_rows:
  "Maximize_quadratic = map (\<lambda>i. (2, Var ''s'' [i], Var ''reg_features'' [i, 8])) [0..<8]"
  by (simp add: upt_8 Maximize_quadratic_def)

lemma Constrs_Avocado: "Constrs Avocado_Price_Allocation = Subject_To"
  by (simp add: Avocado_Price_Allocation_def)

lemma Bounds_Avocado: "Bounds Avocado_Price_Allocation = Bounds_section"
  by (simp add: Avocado_Price_Allocation_def)

lemma find_append:
  "find P (xs @ ys) = (case find P xs of None \<Rightarrow> find P ys | Some x \<Rightarrow> Some x)"
  by (induction xs) auto

lemma find_map_upt:
  assumes "i < n" and "\<And>k. k < n \<Longrightarrow> P (f k) \<longleftrightarrow> k = i"
  shows "find P (map f [0..<n]) = Some (f i)"
  unfolding find_Some_iff using assms by (intro exI [of _ i]) auto

lemma find_no_match: "(\<And>x. x \<in> set xs \<Longrightarrow> \<not> P x) \<Longrightarrow> find P xs = None"
  by (auto simp: find_None_iff)

lemma find_concat_map_upt:
  assumes "i < m" and "j < n"
    and "\<And>a b. a < m \<Longrightarrow> b < n \<Longrightarrow> P (f a b) \<longleftrightarrow> a = i \<and> b = j"
  shows "find P (concat (map (\<lambda>a. map (f a) [0..<n]) [0..<m])) = Some (f i j)"
  using assms(1,3)
proof (induction m)
  case 0
  then show ?case by simp
next
  case (Suc m)
  show ?case
  proof (cases "i < m")
    case True
    then have "find P (concat (map (\<lambda>a. map (f a) [0..<n]) [0..<m])) = Some (f i j)"
      using Suc by simp
    then show ?thesis by (simp add: find_append)
  next
    case False
    then have i: "i = m" using Suc.prems(1) by simp
    have none: "find P (concat (map (\<lambda>a. map (f a) [0..<n]) [0..<m])) = None"
      by (rule find_no_match) (use Suc.prems(2) i in auto)
    have "find P (map (f m) [0..<n]) = Some (f m j)"
      by (rule find_map_upt [OF \<open>j < n\<close>]) (use Suc.prems(2) i in auto)
    then show ?thesis using none i by (simp add: find_append)
  qed
qed

lemma VarName_feature_bound [simp]: "VarName (feature_bound i j) = Var ''reg_features'' [i, j]"
  by (simp add: feature_bound_def)

lemma bound_of_x:
  "i < 8 \<Longrightarrow> bound_of Avocado_Price_Allocation (Var ''x'' [i]) =
     Between (min_delivery ! i) (Var ''x'' [i]) (max_delivery ! i)"
  by (simp add: bound_of_def Bounds_Avocado Bounds_section_rows find_append find_map_upt)

lemma bound_of_reg_features:
  assumes "i < 8" and "j < 10"
  shows "bound_of Avocado_Price_Allocation (Var ''reg_features'' [i, j]) = feature_bound i j"
proof -
  have "find (\<lambda>b. VarName b = Var ''reg_features'' [i, j])
          (concat (map (\<lambda>a. map (feature_bound a) [0..<10]) [0..<8])) = Some (feature_bound i j)"
    by (rule find_concat_map_upt [OF assms]) auto
  moreover have "find (\<lambda>b. VarName b = Var ''reg_features'' [i, j])
          (map (\<lambda>i. Between (min_delivery ! i) (Var ''x'' [i]) (max_delivery ! i)) [0..<8]) = None"
    by (rule find_no_match) auto
  ultimately show ?thesis
    by (simp add: bound_of_def Bounds_Avocado Bounds_section_rows find_append)
qed

lemma bound_of_demand:
  assumes "i < 8"
  shows "bound_of Avocado_Price_Allocation (Var ''demand'' [i]) = Free (Var ''demand'' [i])"
proof -
  have "find (\<lambda>b. VarName b = Var ''demand'' [i])
          (concat (map (\<lambda>a. map (feature_bound a) [0..<10]) [0..<8])) = None"
    by (rule find_no_match) auto
  moreover have "find (\<lambda>b. VarName b = Var ''demand'' [i])
          (map (\<lambda>i. Between (min_delivery ! i) (Var ''x'' [i]) (max_delivery ! i)) [0..<8]) = None"
    by (rule find_no_match) auto
  moreover have "find (\<lambda>b. VarName b = Var ''demand'' [i])
          (map (\<lambda>i. Free (Var ''demand'' [i])) [0..<8]) = Some (Free (Var ''demand'' [i]))"
    by (rule find_map_upt [OF assms]) auto
  ultimately show ?thesis
    by (simp add: bound_of_def Bounds_Avocado Bounds_section_rows find_append)
qed

lemma bound_of_undeclared:
  assumes "n \<noteq> ''x''" and "n \<noteq> ''reg_features''" and "n \<noteq> ''demand''"
  shows "bound_of Avocado_Price_Allocation (Var n idx) = Bound (Some 0) (Var n idx) None"
proof -
  have "find (\<lambda>b. VarName b = Var n idx) Bounds_section = None"
    unfolding Bounds_section_rows by (rule find_no_match) (use assms in auto)
  then show ?thesis by (simp add: bound_of_def Bounds_Avocado)
qed

lemma set_Vars_Avocado_eq:
  "set (Vars Avocado_Price_Allocation) =
     (\<lambda>x. Var ''x'' [x]) ` {0..<8} \<union>
     (VarName ` (\<Union>x\<in>{0..<8}. feature_bound x ` {0..<10}) \<union>
      ((\<lambda>x. Var ''demand'' [x]) ` {0..<8} \<union>
       ((\<lambda>x. Var ''x'' [x]) ` {0..<8} \<union>
        ((\<lambda>x. Var ''w'' [x]) ` {0..<8} \<union>
         ((\<Union>x\<in>{0..<8}. {Var ''s'' [x], Var ''reg_features'' [x, 8]}) \<union>
          (snd ` (\<lambda>x. (1::real, Var ''x'' [x])) ` {0..<8} \<union>
           ((\<Union>x\<in>{0..<8}. {Var ''x'' [x], Var ''s'' [x]}) \<union>
            ((\<Union>x\<in>{0..<8}. {Var ''s'' [x], Var ''demand'' [x]}) \<union>
             ((\<Union>x\<in>{0..<8}. {Var ''x'' [x], Var ''s'' [x], Var ''w'' [x]}) \<union>
              (\<Union>x\<in>{0..<8}.
                  {Var ''reg_features'' [x, 0],
                   Var ''reg_features'' [x, Suc 0],
                   Var ''reg_features'' [x, 2], Var ''reg_features'' [x, 3],
                   Var ''reg_features'' [x, 4], Var ''reg_features'' [x, 5],
                   Var ''reg_features'' [x, 6], Var ''reg_features'' [x, 7],
                   Var ''reg_features'' [x, 8], Var ''reg_features'' [x, 9],
                   Var ''demand'' [x]}))))))))))"
  unfolding Vars_def
  apply (simp add: Avocado_Price_Allocation_def Subject_To_rows Bounds_section_rows Maximize_linear_rows Maximize_quadratic_rows)
  apply (simp add: total_supply_def sold_le_allocated_def sold_le_demand_def wastage_def linreg_def linreg_coefficients_def upt_10)
  done

lemma set_Vars_Avocado: "set (Vars Avocado_Price_Allocation) = avocado_vars"
proof (intro equalityI subsetI)
  fix v assume "v \<in> set (Vars Avocado_Price_Allocation)"
  then show "v \<in> avocado_vars"
    unfolding set_Vars_Avocado_eq avocado_vars_def by (auto simp: image_iff)
next
  fix v assume "v \<in> avocado_vars"
  then consider i where "i < 8" "v \<in> {Var ''x'' [i], Var ''s'' [i], Var ''w'' [i], Var ''demand'' [i]}"
    | i j where "i < 8" "j < 10" "v = Var ''reg_features'' [i, j]"
    by (auto simp: avocado_vars_def)
  then show "v \<in> set (Vars Avocado_Price_Allocation)"
  proof cases
    case 1
    then show ?thesis unfolding set_Vars_Avocado_eq by auto
  next
    case 2
    then have "v \<in> VarName ` (\<Union>x\<in>{0..<8}. feature_bound x ` {0..<10})"
      by (auto simp: image_iff intro!: bexI [of _ i] bexI [of _ j])
    then show ?thesis unfolding set_Vars_Avocado_eq by blast
  qed
qed


lemma sum_list_upt: "sum_list (map f [0..<n]) = (\<Sum>i<n. f i)"
  by (simp add: interv_sum_list_conv_sum_set_nat atLeast0LessThan)

lemma satisfies_total_supply:
  "satisfies a total_supply \<longleftrightarrow> (\<Sum>i<8. a (Var ''x'' [i])) = 30"
  by (simp add: satisfies_def total_supply_def eval_row_def comp_def sum_list_upt)

lemma satisfies_sold_le_allocated:
  "satisfies a (sold_le_allocated i) \<longleftrightarrow> a (Var ''s'' [i]) \<le> a (Var ''x'' [i])"
  by (simp add: satisfies_def sold_le_allocated_def eval_row_def)

lemma satisfies_sold_le_demand:
  "satisfies a (sold_le_demand i) \<longleftrightarrow> a (Var ''s'' [i]) \<le> a (Var ''demand'' [i])"
  by (simp add: satisfies_def sold_le_demand_def eval_row_def)

lemma satisfies_wastage:
  "satisfies a (wastage i) \<longleftrightarrow> a (Var ''w'' [i]) = a (Var ''x'' [i]) - a (Var ''s'' [i])"
  by (auto simp: satisfies_def wastage_def eval_row_def)

lemma satisfies_linreg:
  "satisfies a (linreg i) \<longleftrightarrow>
     a (Var ''demand'' [i]) = predict lin_reg (map (\<lambda>j. a (Var ''reg_features'' [i, j])) [0..<10])"
  by (auto simp: satisfies_def linreg_def linreg_coefficients_def eval_row_def predict_def
      lin_reg_def upt_10)

lemma in_bounds_x:
  "i < 8 \<Longrightarrow> in_bounds Avocado_Price_Allocation a (Var ''x'' [i]) \<longleftrightarrow>
     min_delivery ! i \<le> a (Var ''x'' [i]) \<and> a (Var ''x'' [i]) \<le> max_delivery ! i"
  by (simp add: in_bounds_def in_range_def bound_of_x)

lemma in_bounds_s:
  "in_bounds Avocado_Price_Allocation a (Var ''s'' [i]) \<longleftrightarrow> 0 \<le> a (Var ''s'' [i])"
  by (simp add: in_bounds_def in_range_def bound_of_undeclared)

lemma in_bounds_w:
  "in_bounds Avocado_Price_Allocation a (Var ''w'' [i]) \<longleftrightarrow> 0 \<le> a (Var ''w'' [i])"
  by (simp add: in_bounds_def in_range_def bound_of_undeclared)

lemma in_bounds_demand:
  "i < 8 \<Longrightarrow> in_bounds Avocado_Price_Allocation a (Var ''demand'' [i])"
  by (simp add: in_bounds_def in_range_def bound_of_demand)

lemma in_bounds_reg_features:
  "i < 8 \<Longrightarrow> j < 10 \<Longrightarrow>
     in_bounds Avocado_Price_Allocation a (Var ''reg_features'' [i, j]) \<longleftrightarrow>
     in_range (feature_bound i j) (a (Var ''reg_features'' [i, j]))"
  by (simp add: in_bounds_def bound_of_reg_features)

lemma feasible_Avocado_iff:
  "feasible Avocado_Price_Allocation a \<longleftrightarrow>
     (\<Sum>i<8. a (Var ''x'' [i])) = 30 \<and>
     (\<forall>i<8.
        a (Var ''s'' [i]) \<le> a (Var ''x'' [i]) \<and>
        a (Var ''s'' [i]) \<le> a (Var ''demand'' [i]) \<and>
        a (Var ''w'' [i]) = a (Var ''x'' [i]) - a (Var ''s'' [i]) \<and>
        a (Var ''demand'' [i]) =
          predict lin_reg (map (\<lambda>j. a (Var ''reg_features'' [i, j])) [0..<10]) \<and>
        min_delivery ! i \<le> a (Var ''x'' [i]) \<and> a (Var ''x'' [i]) \<le> max_delivery ! i \<and>
        0 \<le> a (Var ''s'' [i]) \<and> 0 \<le> a (Var ''w'' [i]) \<and>
        (\<forall>j<10. in_range (feature_bound i j) (a (Var ''reg_features'' [i, j]))))"
  (is "?F \<longleftrightarrow> ?S \<and> (\<forall>i<8. ?R i)")
proof -
  have rows: "list_all (satisfies a) (Constrs Avocado_Price_Allocation) \<longleftrightarrow>
      ?S \<and> (\<forall>i<8. satisfies a (sold_le_allocated i) \<and> satisfies a (sold_le_demand i) \<and>
                satisfies a (wastage i) \<and> satisfies a (linreg i))"
    by (auto simp: Constrs_Avocado Subject_To_rows list_all_iff satisfies_total_supply)
  have vars: "list_all (in_bounds Avocado_Price_Allocation a) (Vars Avocado_Price_Allocation) \<longleftrightarrow>
      (\<forall>i<8. in_bounds Avocado_Price_Allocation a (Var ''x'' [i]) \<and>
              in_bounds Avocado_Price_Allocation a (Var ''s'' [i]) \<and>
              in_bounds Avocado_Price_Allocation a (Var ''w'' [i]) \<and>
              in_bounds Avocado_Price_Allocation a (Var ''demand'' [i]) \<and>
              (\<forall>j<10. in_bounds Avocado_Price_Allocation a (Var ''reg_features'' [i, j])))"
    by (auto simp: list_all_iff set_Vars_Avocado avocado_vars_def)
  show ?thesis
    unfolding feasible_def rows vars
    by (auto simp: satisfies_sold_le_allocated satisfies_sold_le_demand satisfies_wastage
        satisfies_linreg in_bounds_x in_bounds_s in_bounds_w in_bounds_demand
        in_bounds_reg_features)
qed

lemma sum_less_8: "(\<Sum>i<(8::nat). f i) = f 0 + f 1 + f 2 + f 3 + f 4 + f 5 + f 6 + (f 7 :: real)"
  by (simp add: eval_nat_numeral lessThan_Suc)

lemma avocado_point_features:
  "map (\<lambda>j. avocado_point (Var ''reg_features'' [i, j])) [0..<10] = avocado_features i"
  by (simp add: avocado_point_def avocado_features_def upt_10)

lemma avocado_point_demand:
  "avocado_point (Var ''demand'' [i]) = predict lin_reg (avocado_features i)"
  by (simp add: avocado_point_def)

lemma avocado_point_prediction:
  "i < 8 \<Longrightarrow> avocado_point (Var ''s'' [i]) \<le> predict lin_reg (avocado_features i)"
  by (drule less_8_cases)
    (auto simp: avocado_point_def avocado_features_def region_column_def predict_def lin_reg_def
      upt_10)

lemma avocado_point_allocation:
  "i < 8 \<Longrightarrow>
     avocado_point (Var ''s'' [i]) \<le> avocado_point (Var ''x'' [i]) \<and>
     avocado_point (Var ''w'' [i]) = avocado_point (Var ''x'' [i]) - avocado_point (Var ''s'' [i]) \<and>
     min_delivery ! i \<le> avocado_point (Var ''x'' [i]) \<and>
     avocado_point (Var ''x'' [i]) \<le> max_delivery ! i \<and>
     0 \<le> avocado_point (Var ''s'' [i]) \<and> 0 \<le> avocado_point (Var ''w'' [i])"
  by (drule less_8_cases) (auto simp: avocado_point_def min_delivery_def max_delivery_def)


lemma avocado_features_nth:
  "j < 10 \<Longrightarrow> avocado_features i ! j =
     (if j = 7 then 7 else if j = 8 \<or> j = 9 \<or> region_column ! i = Some j then 1 else 0)"
  by (simp add: avocado_features_def)

lemma avocado_point_in_range:
  "j < 10 \<Longrightarrow> in_range (feature_bound i j) (avocado_point (Var ''reg_features'' [i, j]))"
  by (simp add: avocado_point_def avocado_features_nth feature_bound_def in_range_def)

lemma feasible_AvocadoD:
  assumes "feasible Avocado_Price_Allocation a"
  shows "(\<Sum>i<8. a (Var ''x'' [i])) = 30"
    and "i < 8 \<Longrightarrow> a (Var ''s'' [i]) \<le> a (Var ''x'' [i])"
    and "i < 8 \<Longrightarrow> a (Var ''s'' [i]) \<le> a (Var ''demand'' [i])"
    and "i < 8 \<Longrightarrow> a (Var ''w'' [i]) = a (Var ''x'' [i]) - a (Var ''s'' [i])"
    and "i < 8 \<Longrightarrow> a (Var ''demand'' [i]) =
           predict lin_reg (map (\<lambda>j. a (Var ''reg_features'' [i, j])) [0..<10])"
    and "i < 8 \<Longrightarrow> min_delivery ! i \<le> a (Var ''x'' [i])"
    and "i < 8 \<Longrightarrow> a (Var ''x'' [i]) \<le> max_delivery ! i"
    and "i < 8 \<Longrightarrow> 0 \<le> a (Var ''s'' [i])"
    and "i < 8 \<Longrightarrow> 0 \<le> a (Var ''w'' [i])"
    and "i < 8 \<Longrightarrow> j < 10 \<Longrightarrow>
           in_range (feature_bound i j) (a (Var ''reg_features'' [i, j]))"
proof -
  note f = assms [unfolded feasible_Avocado_iff]
  show "(\<Sum>i<8. a (Var ''x'' [i])) = 30"
    using f by (rule conjunct1)
  note r = spec [OF conjunct2 [OF f], of i]
  show "i < 8 \<Longrightarrow> a (Var ''s'' [i]) \<le> a (Var ''x'' [i])"
    and "i < 8 \<Longrightarrow> a (Var ''s'' [i]) \<le> a (Var ''demand'' [i])"
    and "i < 8 \<Longrightarrow> a (Var ''w'' [i]) = a (Var ''x'' [i]) - a (Var ''s'' [i])"
    and "i < 8 \<Longrightarrow> a (Var ''demand'' [i]) =
           predict lin_reg (map (\<lambda>j. a (Var ''reg_features'' [i, j])) [0..<10])"
    and "i < 8 \<Longrightarrow> min_delivery ! i \<le> a (Var ''x'' [i])"
    and "i < 8 \<Longrightarrow> a (Var ''x'' [i]) \<le> max_delivery ! i"
    and "i < 8 \<Longrightarrow> 0 \<le> a (Var ''s'' [i])"
    and "i < 8 \<Longrightarrow> 0 \<le> a (Var ''w'' [i])"
    and "i < 8 \<Longrightarrow> j < 10 \<Longrightarrow>
           in_range (feature_bound i j) (a (Var ''reg_features'' [i, j]))"
    using r by blast+
qed

lemma avocado_point_feasible: "feasible Avocado_Price_Allocation avocado_point"
  unfolding feasible_Avocado_iff avocado_point_features
proof (intro conjI allI impI)
  show "(\<Sum>i<8. avocado_point (Var ''x'' [i])) = 30"
    by (simp add: sum_less_8 avocado_point_def)
next
  fix i :: nat assume "i < 8"
  then show "avocado_point (Var ''s'' [i]) \<le> avocado_point (Var ''demand'' [i])"
    by (simp add: avocado_point_demand avocado_point_prediction)
next
  fix i :: nat
  show "avocado_point (Var ''demand'' [i]) = predict lin_reg (avocado_features i)"
    by (rule avocado_point_demand)
next
  fix i j :: nat assume "j < 10"
  then show "in_range (feature_bound i j) (avocado_point (Var ''reg_features'' [i, j]))"
    by (rule avocado_point_in_range)
qed (use avocado_point_allocation in blast)+
subsection \<open>The regression rows\<close>

lemma filter_map_upt_one:
  assumes "i < n" and "\<And>k. k < n \<Longrightarrow> P (f k) \<longleftrightarrow> k = i"
  shows "filter P (map f [0..<n]) = [f i]"
  using assms
proof (induction n)
  case 0
  then show ?case by simp
next
  case (Suc n)
  show ?case
  proof (cases "i < n")
    case True
    with Suc have "filter P (map f [0..<n]) = [f i]" by simp
    moreover have "\<not> P (f n)" using Suc.prems(2) [of n] True by simp
    ultimately show ?thesis by simp
  next
    case False
    then have i: "i = n" using Suc.prems(1) by simp
    have "filter P (map f [0..<n]) = []"
      using Suc.prems(2) i by (auto simp: filter_empty_conv)
    then show ?thesis using Suc.prems(2) [of n] i by simp
  qed
qed

lemma filter_map_upt_none:
  "(\<And>k. k < n \<Longrightarrow> \<not> P (f k)) \<Longrightarrow> filter P (map f [0..<n]) = []"
  by (auto simp: filter_empty_conv)

lemma Row_linreg:
  "map snd (Row (linreg i)) =
     map (\<lambda>j. Var ''reg_features'' [i, j]) [0..<10] @ [Var ''demand'' [i]]"
  by (simp add: linreg_def linreg_coefficients_def upt_10)

lemma constrs_named_linreg:
  assumes "i < 8"
  shows "constrs_named Avocado_Price_Allocation (''LinearRegressionConstr1.linreg'', [i, 0]) =
     [linreg i]"
proof -
  let ?P = "\<lambda>c. ConstrName c = (''LinearRegressionConstr1.linreg'', [i, 0])"
  have "filter ?P (map linreg [0..<8]) = [linreg i]"
    by (rule filter_map_upt_one [OF assms]) (auto simp: linreg_def)
  moreover have "filter ?P (map sold_le_allocated [0..<8]) = []"
    "filter ?P (map sold_le_demand [0..<8]) = []" "filter ?P (map wastage [0..<8]) = []"
    by (rule filter_map_upt_none; simp add: sold_le_allocated_def sold_le_demand_def wastage_def)+
  moreover have "\<not> ?P total_supply"
    by (simp add: total_supply_def)
  ultimately show ?thesis
    by (simp add: constrs_named_def Constrs_Avocado Subject_To_rows)
qed

lemma equalities_on_demand:
  assumes "i < 8"
  shows "filter (\<lambda>c. Sense c = EQUAL \<and> Var ''demand'' [i] \<in> snd ` set (Row c))
           (Constrs Avocado_Price_Allocation) = [linreg i]"
proof -
  let ?P = "\<lambda>c. Sense c = EQUAL \<and> Var ''demand'' [i] \<in> snd ` set (Row c)"
  have "filter ?P (map linreg [0..<8]) = [linreg i]"
    by (rule filter_map_upt_one [OF assms])
      (auto simp: linreg_def linreg_coefficients_def upt_10)
  moreover have "filter ?P (map sold_le_allocated [0..<8]) = []"
    "filter ?P (map sold_le_demand [0..<8]) = []" "filter ?P (map wastage [0..<8]) = []"
    by (rule filter_map_upt_none; simp add: sold_le_allocated_def sold_le_demand_def wastage_def)+
  moreover have "\<not> ?P total_supply"
    by (auto simp: total_supply_def)
  ultimately show ?thesis
    by (simp add: Constrs_Avocado Subject_To_rows)
qed

text \<open>
  C1. For every row \<open>i < 8\<close> the model has exactly one constraint named
  \<open>LinearRegressionConstr1.linreg[i,0]\<close>, which is also its only equality that
  mentions \<open>demand[i]\<close>; it holds exactly when \<open>demand[i]\<close> is the intercept plus the
  sum of the coefficients times \<open>reg_features[i,j]\<close>, with the one coefficient vector
  and intercept of \<open>lin_reg\<close>; so at every feasible point \<open>demand[i]\<close> is the
  regression's prediction on the values of row \<open>i\<close>.
\<close>

theorem linreg_row_forces_prediction:
  assumes "i < 8"
  shows "constrs_named Avocado_Price_Allocation (''LinearRegressionConstr1.linreg'', [i, 0]) =
           [linreg i] \<and>
         filter (\<lambda>c. Sense c = EQUAL \<and> Var ''demand'' [i] \<in> snd ` set (Row c))
           (Constrs Avocado_Price_Allocation) = [linreg i] \<and>
         Sense (linreg i) = EQUAL \<and>
         (\<forall>a. satisfies a (linreg i) \<longleftrightarrow>
            a (Var ''demand'' [i]) =
              intercept lin_reg +
              (\<Sum>j<10. coef lin_reg ! j * a (Var ''reg_features'' [i, j]))) \<and>
         (\<forall>a. feasible Avocado_Price_Allocation a \<longrightarrow>
            a (Var ''demand'' [i]) =
              predict lin_reg (map (\<lambda>j. a (Var ''reg_features'' [i, j])) [0..<10]))"
proof (intro conjI allI impI)
  fix a
  have "predict lin_reg (map (\<lambda>j. a (Var ''reg_features'' [i, j])) [0..<10]) =
      intercept lin_reg + (\<Sum>j<10. coef lin_reg ! j * a (Var ''reg_features'' [i, j]))"
    by (simp add: predict_def lin_reg_def upt_10 eval_nat_numeral lessThan_Suc)
  then show "satisfies a (linreg i) \<longleftrightarrow>
      a (Var ''demand'' [i]) =
        intercept lin_reg + (\<Sum>j<10. coef lin_reg ! j * a (Var ''reg_features'' [i, j]))"
    by (simp add: satisfies_linreg)
next
  fix a assume "feasible Avocado_Price_Allocation a"
  then show "a (Var ''demand'' [i]) =
      predict lin_reg (map (\<lambda>j. a (Var ''reg_features'' [i, j])) [0..<10])"
    using assms by (rule feasible_AvocadoD(5))
qed (simp_all add: constrs_named_linreg equalities_on_demand assms linreg_def)

theorem linreg_row_forces_prediction_witness:
  "constrs_named Avocado_Price_Allocation (''LinearRegressionConstr1.linreg'', [3, 0]) =
     [linreg 3] \<and>
   feasible Avocado_Price_Allocation avocado_point \<and>
   avocado_point (Var ''demand'' [3]) =
     predict lin_reg (map (\<lambda>j. avocado_point (Var ''reg_features'' [3, j])) [0..<10]) \<and>
   avocado_point (Var ''demand'' [3]) = 118136986168553 / 62500000000000"
proof -
  have three: "(3::nat) < 8" by simp
  note row = linreg_row_forces_prediction [OF three]
  have "avocado_point (Var ''demand'' [3]) =
      predict lin_reg (map (\<lambda>j. avocado_point (Var ''reg_features'' [3, j])) [0..<10])"
    using row avocado_point_feasible by blast
  moreover have "avocado_point (Var ''demand'' [3]) = 118136986168553 / 62500000000000"
    by (simp add: avocado_point_def avocado_features_def region_column_def predict_def
        lin_reg_def upt_10)
  ultimately show ?thesis
    using row avocado_point_feasible by blast
qed

lemma reg_features_nth:
  "i < 8 \<Longrightarrow> reg_features ! i = map (\<lambda>j. Var ''reg_features'' [i, j]) [0..<10]"
  by (simp add: reg_features_def)

lemma demand_nth: "i < 8 \<Longrightarrow> demand ! i = Var ''demand'' [i]"
  by (simp add: demand_def)

lemma getCoeff_linreg:
  "map (getCoeff (linreg i)) (map (\<lambda>j. Var ''reg_features'' [i, j]) [0..<10]) =
     linreg_coefficients \<and>
   getCoeff (linreg i) (Var ''demand'' [i]) = 1"
  by (simp add: getCoeff_def linreg_def linreg_coefficients_def upt_10)

lemma satisfies_linreg_rows:
  fixes idxs :: "nat list"
  assumes "\<forall>k\<in>set idxs. k < 8"
  shows "list_all (satisfies a) (map linreg idxs) \<longleftrightarrow>
     map (\<lambda>k. a (demand ! k)) idxs =
     map (\<lambda>k. predict lin_reg (map a (reg_features ! k))) idxs"
  using assms
  by (induction idxs) (auto simp: satisfies_linreg reg_features_nth demand_nth comp_def)

text \<open>
  C7. The eight regression rows have the same coefficients on their row of the feature
  matrix, the vector of ten numbers below, coefficient 1 on their demand variable, and the
  same right-hand side 5.439310052165032.  For any list of row indices, with repetitions and in any order, the
  rows so selected hold exactly when the selected outputs are the predictions of the one
  regression on the selected input rows.
\<close>

theorem linreg_rows_uniform:
  "(\<forall>i<8. constrs_named Avocado_Price_Allocation (''LinearRegressionConstr1.linreg'', [i, 0]) =
             [linreg i] \<and>
           map (getCoeff (linreg i)) (reg_features ! i) =
             [0.2426931536778747, - 1.433019836643237, 3.01924379063788, 1.815032872390411,
              - 1.713812073973461, - 0.5839901666611677, - 2.601799448641272,
              - 0.1607693023184433, 2.203770104890248, - 0.5485105058308409] \<and>
           getCoeff (linreg i) (demand ! i) = 1 \<and>
           Sense (linreg i) = EQUAL \<and>
           RHS (linreg i) = 5.439310052165032) \<and>
   (\<forall>a (idxs :: nat list). (\<forall>k\<in>set idxs. k < 8) \<longrightarrow>
      (list_all (satisfies a) (map linreg idxs) \<longleftrightarrow>
       map (\<lambda>k. a (demand ! k)) idxs =
       map (\<lambda>k. predict lin_reg (map a (reg_features ! k))) idxs))"
proof (intro conjI allI impI)
  fix i :: nat assume "i < 8"
  then show "map (getCoeff (linreg i)) (reg_features ! i) =
      [0.2426931536778747, - 1.433019836643237, 3.01924379063788, 1.815032872390411,
       - 1.713812073973461, - 0.5839901666611677, - 2.601799448641272,
       - 0.1607693023184433, 2.203770104890248, - 0.5485105058308409]"
    using getCoeff_linreg [of i] by (simp add: reg_features_nth linreg_coefficients_def)
next
  fix i :: nat assume "i < 8"
  then show "getCoeff (linreg i) (demand ! i) = 1"
    using getCoeff_linreg [of i] by (simp add: demand_nth)
next
  fix a and idxs :: "nat list" assume "\<forall>k\<in>set idxs. k < 8"
  then show "list_all (satisfies a) (map linreg idxs) \<longleftrightarrow>
      map (\<lambda>k. a (demand ! k)) idxs =
      map (\<lambda>k. predict lin_reg (map a (reg_features ! k))) idxs"
    by (rule satisfies_linreg_rows)
qed (simp_all add: constrs_named_linreg linreg_def)

theorem linreg_rows_uniform_witness:
  "map (getCoeff (linreg 5)) (reg_features ! 5) =
     [0.2426931536778747, - 1.433019836643237, 3.01924379063788, 1.815032872390411,
      - 1.713812073973461, - 0.5839901666611677, - 2.601799448641272,
      - 0.1607693023184433, 2.203770104890248, - 0.5485105058308409] \<and>
   RHS (linreg 5) = 5.439310052165032 \<and>
   list_all (satisfies avocado_point) (map linreg [6, 2, 2]) \<and>
   map (\<lambda>k. avocado_point (demand ! k)) [6, 2, 2] =
     map (\<lambda>k. predict lin_reg (map avocado_point (reg_features ! k))) [6, 2, 2]"
proof -
  note u = linreg_rows_uniform
  have five: "(5::nat) < 8" by simp
  note row = mp [OF spec [OF conjunct1 [OF u], of 5] five]
  have sel: "\<forall>k\<in>set [6, 2, 2::nat]. k < 8" by simp
  note iff = mp [OF spec [OF spec [OF conjunct2 [OF u], of avocado_point], of "[6, 2, 2]"] sel]
  have rows: "list_all (satisfies avocado_point) (map linreg [6, 2, 2])"
    by (simp add: satisfies_linreg avocado_point_features avocado_point_demand)
  show ?thesis
    using row rows iff by blast
qed

subsection \<open>The feature matrix\<close>

lemma set_concat_reg_features:
  "set (concat reg_features) = (\<Union>i<8. \<Union>j<10. {Var ''reg_features'' [i, j]})"
  by (auto simp: reg_features_def)

lemma reg_features_family:
  "{v \<in> set (Vars Avocado_Price_Allocation). var_family ''reg_features'' v} =
     set (concat reg_features)"
  unfolding set_Vars_Avocado set_concat_reg_features
  by (auto simp: avocado_vars_def var_family_def)

lemma reg_features_shape:
  "length reg_features = 8 \<and> (\<forall>r\<in>set reg_features. length r = 10)"
  by (auto simp: reg_features_def)

lemma feature_bound_cases:
  assumes "i < 8" and "j < 10"
  shows "(j < 7 \<longrightarrow> feature_bound i j = Fixed (Var ''reg_features'' [i, j]) 0 \<or>
                   feature_bound i j = Fixed (Var ''reg_features'' [i, j]) 1) \<and>
         (j = 7 \<longrightarrow> feature_bound i j = Fixed (Var ''reg_features'' [i, j]) 7) \<and>
         (j = 9 \<longrightarrow> feature_bound i j = Fixed (Var ''reg_features'' [i, j]) 1) \<and>
         (j = 8 \<longrightarrow> feature_bound i j = Between 0 (Var ''reg_features'' [i, j]) 2)"
  by (simp add: feature_bound_def)

lemma ObjVal_Avocado:
  "ObjVal Avocado_Price_Allocation a =
     (\<Sum>i<8. a (Var ''s'' [i]) * a (Var ''reg_features'' [i, 8])) -
     (\<Sum>i<8. c_waste * a (Var ''w'' [i])) -
     (\<Sum>i<8. c_transport ! i * a (Var ''x'' [i]))"
  by (simp add: ObjVal_def Avocado_Price_Allocation_def Maximize_linear_rows
      Maximize_quadratic_rows eval_row_def comp_def sum_list_upt sum_negf sum_divide_distrib)

text \<open>
  C5. The feature matrix of the model is 8 by 10, and the model's variables named
  \<open>reg_features\<close> are its entries.  In every row the region columns 0 to 6 are fixed
  to 0 or to 1, the year column 7 is fixed to 7 and the peak column 9 to 1, each by equal
  lower and upper bounds; the price column 8 ranges from 0 to 2.  The price column is the
  variable that multiplies \<open>s[i]\<close> in the objective: the products have coefficient 2
  and their sum is halved, so the objective is revenue minus waste and transport costs.
\<close>

theorem feature_matrix_pinned:
  "length reg_features = 8 \<and> (\<forall>r\<in>set reg_features. length r = 10) \<and>
   {v \<in> set (Vars Avocado_Price_Allocation). var_family ''reg_features'' v} =
     set (concat reg_features) \<and>
   (\<forall>i<8. \<forall>j<10.
      reg_features ! i ! j = Var ''reg_features'' [i, j] \<and>
      (j < 7 \<longrightarrow>
         bound_of Avocado_Price_Allocation (Var ''reg_features'' [i, j]) =
           Fixed (Var ''reg_features'' [i, j]) 0 \<or>
         bound_of Avocado_Price_Allocation (Var ''reg_features'' [i, j]) =
           Fixed (Var ''reg_features'' [i, j]) 1) \<and>
      (j = 7 \<longrightarrow>
         bound_of Avocado_Price_Allocation (Var ''reg_features'' [i, j]) =
           Fixed (Var ''reg_features'' [i, j]) 7) \<and>
      (j = 9 \<longrightarrow>
         bound_of Avocado_Price_Allocation (Var ''reg_features'' [i, j]) =
           Fixed (Var ''reg_features'' [i, j]) 1) \<and>
      (j = 8 \<longrightarrow>
         bound_of Avocado_Price_Allocation (Var ''reg_features'' [i, j]) =
           Between 0 (Var ''reg_features'' [i, j]) 2)) \<and>
   QObj Avocado_Price_Allocation =
     map (\<lambda>i. (2, Var ''s'' [i], Var ''reg_features'' [i, 8])) [0..<8] \<and>
   (\<forall>a. ObjVal Avocado_Price_Allocation a =
      (\<Sum>i<8. a (Var ''s'' [i]) * a (Var ''reg_features'' [i, 8])) -
      (\<Sum>i<8. c_waste * a (Var ''w'' [i])) -
      (\<Sum>i<8. c_transport ! i * a (Var ''x'' [i])))"
proof (intro conjI allI impI)
  show "QObj Avocado_Price_Allocation =
      map (\<lambda>i. (2, Var ''s'' [i], Var ''reg_features'' [i, 8])) [0..<8]"
    by (simp add: Avocado_Price_Allocation_def Maximize_quadratic_rows)
next
  fix i j :: nat assume "i < 8" "j < 10"
  then show "reg_features ! i ! j = Var ''reg_features'' [i, j]"
    by (simp add: reg_features_def)
next
  fix i j :: nat assume ij: "i < 8" "j < 10"
  note b = bound_of_reg_features [OF ij] and c = feature_bound_cases [OF ij]
  {
    assume "j < 7"
    with c show "bound_of Avocado_Price_Allocation (Var ''reg_features'' [i, j]) =
          Fixed (Var ''reg_features'' [i, j]) 0 \<or>
        bound_of Avocado_Price_Allocation (Var ''reg_features'' [i, j]) =
          Fixed (Var ''reg_features'' [i, j]) 1"
      unfolding b by blast
  next
    assume "j = 7"
    with c show "bound_of Avocado_Price_Allocation (Var ''reg_features'' [i, j]) =
        Fixed (Var ''reg_features'' [i, j]) 7"
      unfolding b by blast
  next
    assume "j = 9"
    with c show "bound_of Avocado_Price_Allocation (Var ''reg_features'' [i, j]) =
        Fixed (Var ''reg_features'' [i, j]) 1"
      unfolding b by blast
  next
    assume "j = 8"
    with c show "bound_of Avocado_Price_Allocation (Var ''reg_features'' [i, j]) =
        Between 0 (Var ''reg_features'' [i, j]) 2"
      unfolding b by blast
  }
qed (use reg_features_shape reg_features_family ObjVal_Avocado in blast)+

theorem feature_matrix_pinned_witness:
  "bound_of Avocado_Price_Allocation (Var ''reg_features'' [7, 3]) =
     Fixed (Var ''reg_features'' [7, 3]) 1 \<and>
   bound_of Avocado_Price_Allocation (Var ''reg_features'' [7, 7]) =
     Fixed (Var ''reg_features'' [7, 7]) 7 \<and>
   bound_of Avocado_Price_Allocation (Var ''reg_features'' [7, 8]) =
     Between 0 (Var ''reg_features'' [7, 8]) 2 \<and>
   bound_of Avocado_Price_Allocation (Var ''reg_features'' [7, 9]) =
     Fixed (Var ''reg_features'' [7, 9]) 1 \<and>
   length (reg_features ! 7) = 10 \<and>
   ObjVal Avocado_Price_Allocation avocado_point = 5.85"
proof -
  note p = feature_matrix_pinned
  have i: "(7::nat) < 8" and j: "(3::nat) < 10" "(7::nat) < 10" "(8::nat) < 10" "(9::nat) < 10"
    by simp_all
  note rows = conjunct1 [OF conjunct2 [OF conjunct2 [OF conjunct2 [OF p]]]]
  note r = mp [OF spec [OF rows, of 7] i]
  have b3: "bound_of Avocado_Price_Allocation (Var ''reg_features'' [7, 3]) =
      Fixed (Var ''reg_features'' [7, 3]) 1"
    using mp [OF spec [OF r, of 3] j(1)]
    by (simp add: bound_of_reg_features feature_bound_def region_column_def)
  have len: "length (reg_features ! 7) = 10"
    using conjunct1 [OF conjunct2 [OF p]] conjunct1 [OF p] by simp
  have obj: "ObjVal Avocado_Price_Allocation avocado_point = 5.85"
    using spec [OF conjunct2 [OF conjunct2 [OF conjunct2 [OF conjunct2 [OF conjunct2 [OF p]]]]],
        of avocado_point]
    by (simp add: sum_less_8 avocado_point_def avocado_features_def region_column_def
        c_waste_def c_transport_def upt_10)
  show ?thesis
    using b3 len obj mp [OF spec [OF r, of 7] j(2)] mp [OF spec [OF r, of 8] j(3)]
      mp [OF spec [OF r, of 9] j(4)]
    by simp
qed
section \<open>Properties of the adversarial example model\<close>

lemma eval_row_append: "eval_row a (xs @ ys) = eval_row a xs + eval_row a ys"
  by (simp add: eval_row_def)

lemma eval_row_negate: "eval_row a (negate e) = - eval_row a e"
  by (induction e) (auto simp: eval_row_def negate_def)

lemma satisfies_as_row:
  "satisfies a (as_row k l sn r) \<longleftrightarrow> compare sn (eval_affine a l) (eval_affine a r)"
  by (cases sn)
    (auto simp: satisfies_def as_row_def eval_affine_def eval_row_append eval_row_negate)

lemma satisfies_addConstr:
  "list_all (satisfies a) (Constrs (addConstr m l sn r)) \<longleftrightarrow>
     list_all (satisfies a) (Constrs m) \<and> compare sn (eval_affine a l) (eval_affine a r)"
  by (simp add: addConstr_def satisfies_as_row)

lemma satisfies_rows_enumerate:
  "list_all (satisfies a) (map (\<lambda>(k, l, r). as_row (c + k) l sn r) (enumerate n zs)) \<longleftrightarrow>
     list_all (\<lambda>(l, r). compare sn (eval_affine a l) (eval_affine a r)) zs"
  by (induction zs arbitrary: n) (auto simp: satisfies_as_row)

lemma satisfies_addMConstr:
  "list_all (satisfies a) (Constrs (addMConstr m L sn R)) \<longleftrightarrow>
     list_all (satisfies a) (Constrs m) \<and>
     list_all (\<lambda>(l, r). compare sn (eval_affine a l) (eval_affine a r))
       (zip (concat L) (concat R))"
  by (simp add: addMConstr_def satisfies_rows_enumerate)

lemma Bounds_addMConstr [simp]: "Bounds (addMConstr m L sn R) = Bounds m"
  by (simp add: addMConstr_def)

lemma Bounds_addConstr [simp]: "Bounds (addConstr m l sn r) = Bounds m"
  by (simp add: addConstr_def)

lemma Bounds_setObjective [simp]: "Bounds (setObjective m e sn) = Bounds m"
  by (simp add: setObjective_def)

lemma Constrs_setObjective [simp]: "Constrs (setObjective m e sn) = Constrs m"
  by (simp add: setObjective_def)

lemma Constrs_addMVar [simp]: "Constrs (addMVar m shape lb ub n) = Constrs m"
  by (simp add: addMVar_def)

lemma concat_MVar_row:
  "concat (MVar n (1, k)) = map (\<lambda>j. ([(1, Var n [0, j])], 0)) [0..<k]"
  by (simp add: MVar_def)

lemma concat_msub_row:
  "concat (msub (MVar n (1, length example)) [example]) =
     map (\<lambda>j. ([(1, Var n [0, j])], - example ! j)) [0..<length example]"
  by (auto simp: msub_def MVar_def intro!: nth_equalityI)

lemma concat_mneg_add_row:
  "concat (mneg_add (MVar n (1, length example)) [example]) =
     map (\<lambda>j. ([(- 1, Var n [0, j])], example ! j)) [0..<length example]"
  by (auto simp: mneg_add_def MVar_def negate_def intro!: nth_equalityI)

lemma zip_map_upt: "zip (map f [0..<k]) (map g [0..<k]) = map (\<lambda>j. (f j, g j)) [0..<k]"
  by (auto intro!: nth_equalityI)

lemma eval_affine_msum_MVar:
  "eval_affine a (msum (MVar n (1, k))) = (\<Sum>j<k. a (Var n [0, j]))"
  unfolding msum_def concat_MVar_row
  by (simp add: eval_affine_def eval_row_def comp_def sum_list_upt)

lemma satisfies_adversarial_mnist:
  "list_all (satisfies a) (Constrs (adversarial_mnist example n_labels wrong_label right_label)) \<longleftrightarrow>
     (\<forall>j<length example. a (Var ''x'' [0, j]) - example ! j \<le> a (Var ''abs_diff'' [0, j])) \<and>
     (\<forall>j<length example. - a (Var ''x'' [0, j]) + example ! j \<le> a (Var ''abs_diff'' [0, j])) \<and>
     (\<Sum>j<length example. a (Var ''abs_diff'' [0, j])) \<le> delta"
  unfolding adversarial_mnist_def Let_def satisfies_addConstr satisfies_addMConstr
    eval_affine_msum_MVar concat_MVar_row concat_msub_row concat_mneg_add_row zip_map_upt
  by (auto simp: list_all_iff eval_affine_def eval_row_def const_def Model_init_def)

lemma Bounds_adversarial_mnist:
  "Bounds (adversarial_mnist example n_labels wrong_label right_label) =
     concat (map (\<lambda>i. map (\<lambda>j. Between 0 (Var ''x'' [i, j]) 1) [0..<length example]) [0..<1]) @
     concat (map (\<lambda>i. map (\<lambda>j. Free (Var ''y'' [i, j])) [0..<n_labels]) [0..<1]) @
     concat (map (\<lambda>i. map (\<lambda>j. Between 0 (Var ''abs_diff'' [i, j]) 1) [0..<length example]) [0..<1])"
  by (simp add: adversarial_mnist_def Let_def addMVar_def Model_init_def)

lemma bound_of_pixel:
  assumes "j < length example"
  shows "find (\<lambda>b. VarName b = Var ''x'' [0, j])
           (Bounds (adversarial_mnist example n_labels wrong_label right_label)) =
         Some (Between 0 (Var ''x'' [0, j]) 1)"
proof -
  have "find (\<lambda>b. VarName b = Var ''x'' [0, j])
      (concat (map (\<lambda>i. map (\<lambda>j. Between 0 (Var ''x'' [i, j]) 1) [0..<length example]) [0..<1])) =
      Some (Between 0 (Var ''x'' [0, j]) 1)"
    by (rule find_concat_map_upt [OF _ assms]) auto
  then show ?thesis
    unfolding Bounds_adversarial_mnist by (simp only: find_append option.case)
qed

lemma find_extends:
  assumes "extends m m'" and "find P (Bounds m) = Some b"
  shows "find P (Bounds m') = Some b"
proof -
  have "Bounds m' = Bounds m @ drop (length (Bounds m)) (Bounds m')"
    using assms(1) by (metis append_take_drop_id extends_def)
  then have "find P (Bounds m') = find P (Bounds m @ drop (length (Bounds m)) (Bounds m'))"
    by simp
  then show ?thesis using assms(2) by (simp add: find_append)
qed

lemma satisfies_extends:
  assumes "extends m m'" and "list_all (satisfies a) (Constrs m')"
  shows "list_all (satisfies a) (Constrs m)"
proof -
  have "set (Constrs m) \<subseteq> set (Constrs m')"
    using assms(1) by (metis extends_def set_take_subset)
  then show ?thesis using assms(2) by (auto simp: list_all_iff)
qed

lemma declared_extends:
  assumes "extends m m'" and "b \<in> set (Bounds m)"
  shows "VarName b \<in> set (Vars m')"
proof -
  have "set (Bounds m) \<subseteq> set (Bounds m')"
    using assms(1) by (metis extends_def set_take_subset)
  then show ?thesis using assms(2) by (auto simp: Vars_def)
qed

lemma extends_refl: "extends m m"
  by (simp add: extends_def)

lemma find_in_set: "find P xs = Some x \<Longrightarrow> x \<in> set xs"
  by (auto simp: find_Some_iff)

lemma pixel_in_bounds:
  assumes ext: "extends (adversarial_mnist example n_labels wrong_label right_label) m"
    and feas: "feasible m a" and j: "j < length example"
  shows "0 \<le> a (Var ''x'' [0, j]) \<and> a (Var ''x'' [0, j]) \<le> 1"
proof -
  let ?M = "adversarial_mnist example n_labels wrong_label right_label"
  let ?v = "Var ''x'' [0, j]"
  note f = bound_of_pixel [OF j, of n_labels wrong_label right_label]
  have "find (\<lambda>b. VarName b = ?v) (Bounds m) = Some (Between 0 ?v 1)"
    using ext f by (rule find_extends)
  then have b: "bound_of m ?v = Between 0 ?v 1"
    by (simp add: bound_of_def)
  have "VarName (Between 0 ?v 1) \<in> set (Vars m)"
    using ext find_in_set [OF f] by (rule declared_extends)
  then have "in_bounds m a ?v"
    using feas by (simp add: feasible_def list_all_iff)
  then show ?thesis
    by (simp add: in_bounds_def in_range_def b)
qed

text \<open>
  C8. In the model of the adversarial notebook, and in any model that later calls extend
  with more variables and rows (the network's), every feasible point keeps each pixel
  between 0 and 1, each \<open>abs_diff\<close> entry above the absolute deviation of its pixel
  from the example, and the sum of the absolute deviations at most \<open>delta = 5\<close>.
\<close>

theorem l1_ball:
  assumes ext: "extends (adversarial_mnist example n_labels wrong_label right_label) m"
    and feas: "feasible m a"
  shows "(\<forall>j<length example.
            0 \<le> a (Var ''x'' [0, j]) \<and> a (Var ''x'' [0, j]) \<le> 1 \<and>
            \<bar>a (Var ''x'' [0, j]) - example ! j\<bar> \<le> a (Var ''abs_diff'' [0, j])) \<and>
         (\<Sum>j<length example. \<bar>a (Var ''x'' [0, j]) - example ! j\<bar>) \<le> 5"
proof -
  have "list_all (satisfies a) (Constrs m)"
    using feas by (simp add: feasible_def)
  with ext have
    "list_all (satisfies a) (Constrs (adversarial_mnist example n_labels wrong_label right_label))"
    by (rule satisfies_extends)
  then have up: "\<And>j. j < length example \<Longrightarrow>
        a (Var ''x'' [0, j]) - example ! j \<le> a (Var ''abs_diff'' [0, j])"
    and down: "\<And>j. j < length example \<Longrightarrow>
        - a (Var ''x'' [0, j]) + example ! j \<le> a (Var ''abs_diff'' [0, j])"
    and total: "(\<Sum>j<length example. a (Var ''abs_diff'' [0, j])) \<le> delta"
    unfolding satisfies_adversarial_mnist by blast+
  have dist: "\<bar>a (Var ''x'' [0, j]) - example ! j\<bar> \<le> a (Var ''abs_diff'' [0, j])"
    if "j < length example" for j
    using up [OF that] down [OF that] by linarith
  have "(\<Sum>j<length example. \<bar>a (Var ''x'' [0, j]) - example ! j\<bar>) \<le>
      (\<Sum>j<length example. a (Var ''abs_diff'' [0, j]))"
    by (rule sum_mono) (simp add: dist)
  with total have "(\<Sum>j<length example. \<bar>a (Var ''x'' [0, j]) - example ! j\<bar>) \<le> 5"
    by (simp add: delta_def)
  then show ?thesis
    using dist pixel_in_bounds [OF ext feas] by blast
qed

lemma enumerate_map_upt: "enumerate 0 (map f [0..<n]) = map (\<lambda>j. (j, f j)) [0..<n]"
  by (auto intro!: nth_equalityI simp: nth_enumerate_eq)

lemma Constrs_adversarial_mnist:
  "Constrs (adversarial_mnist example n_labels wrong_label right_label) =
     map (\<lambda>j. as_row j ([(1, Var ''abs_diff'' [0, j])], 0) GREATER_EQUAL
                  ([(1, Var ''x'' [0, j])], - example ! j)) [0..<length example] @
     map (\<lambda>j. as_row (length example + j) ([(1, Var ''abs_diff'' [0, j])], 0) GREATER_EQUAL
                  ([(- 1, Var ''x'' [0, j])], example ! j)) [0..<length example] @
     [as_row (length example + length example)
        (msum (MVar ''abs_diff'' (1, length example))) LESS_EQUAL (const delta)]"
  unfolding adversarial_mnist_def Let_def addConstr_def addMConstr_def
    concat_MVar_row concat_msub_row concat_mneg_add_row zip_map_upt enumerate_map_upt
  by (simp add: Model_init_def addMVar_def setObjective_def comp_def)

lemma Obj_adversarial_mnist:
  "Obj (adversarial_mnist example n_labels wrong_label right_label) =
     [(1, Var ''y'' [0, wrong_label]), (- 1, Var ''y'' [0, right_label])] \<and>
   QObj (adversarial_mnist example n_labels wrong_label right_label) = []"
  by (simp add: adversarial_mnist_def Let_def addConstr_def addMConstr_def setObjective_def)

lemma msum_MVar_row:
  "msum (MVar n (1, k)) = (map (\<lambda>j. (1, Var n [0, j])) [0..<k], 0)"
  unfolding msum_def concat_MVar_row by (simp add: comp_def)

lemma set_Vars_adversarial_mnist:
  "set (Vars (adversarial_mnist example n_labels wrong_label right_label)) =
     (\<lambda>j. Var ''x'' [0, j]) ` {..<length example} \<union>
     (\<lambda>j. Var ''abs_diff'' [0, j]) ` {..<length example} \<union>
     (\<lambda>j. Var ''y'' [0, j]) ` ({..<n_labels} \<union> {wrong_label, right_label})"
  unfolding Vars_def Constrs_adversarial_mnist Bounds_adversarial_mnist msum_MVar_row
  by (auto simp: Obj_adversarial_mnist as_row_def negate_def const_def image_iff)


lemma bound_of_adversarial_mnist:
  "j < length example \<Longrightarrow>
     bound_of (adversarial_mnist example n_labels wrong_label right_label) (Var ''x'' [0, j]) =
       Between 0 (Var ''x'' [0, j]) 1"
  "j < length example \<Longrightarrow>
     bound_of (adversarial_mnist example n_labels wrong_label right_label)
       (Var ''abs_diff'' [0, j]) = Between 0 (Var ''abs_diff'' [0, j]) 1"
  "k < n_labels \<Longrightarrow>
     bound_of (adversarial_mnist example n_labels wrong_label right_label) (Var ''y'' [0, k]) =
       Free (Var ''y'' [0, k])"
proof -
  let ?X = "concat (map (\<lambda>i. map (\<lambda>j. Between 0 (Var ''x'' [i, j]) 1) [0..<length example])
      [0..<1])"
  let ?Y = "concat (map (\<lambda>i. map (\<lambda>j. Free (Var ''y'' [i, j])) [0..<n_labels]) [0..<1])"
  let ?A = "concat (map (\<lambda>i. map (\<lambda>j. Between 0 (Var ''abs_diff'' [i, j]) 1)
      [0..<length example]) [0..<1])"
  show "bound_of (adversarial_mnist example n_labels wrong_label right_label)
      (Var ''x'' [0, j]) = Between 0 (Var ''x'' [0, j]) 1" if "j < length example"
    using bound_of_pixel [OF that] by (simp add: bound_of_def)
  have "find (\<lambda>b. VarName b = Var ''abs_diff'' [0, j]) ?X = None"
    "find (\<lambda>b. VarName b = Var ''abs_diff'' [0, j]) ?Y = None"
    by (rule find_no_match; auto)+
  moreover have "find (\<lambda>b. VarName b = Var ''abs_diff'' [0, j]) ?A =
      Some (Between 0 (Var ''abs_diff'' [0, j]) 1)" if "j < length example"
    by (rule find_concat_map_upt [OF _ that]) auto
  ultimately show "bound_of (adversarial_mnist example n_labels wrong_label right_label)
      (Var ''abs_diff'' [0, j]) = Between 0 (Var ''abs_diff'' [0, j]) 1" if "j < length example"
    using that unfolding bound_of_def Bounds_adversarial_mnist
    by (simp only: find_append option.case)
  have "find (\<lambda>b. VarName b = Var ''y'' [0, k]) ?X = None"
    by (rule find_no_match) auto
  moreover have "find (\<lambda>b. VarName b = Var ''y'' [0, k]) ?Y = Some (Free (Var ''y'' [0, k]))"
    if "k < n_labels"
    by (rule find_concat_map_upt [OF _ that]) auto
  ultimately show "bound_of (adversarial_mnist example n_labels wrong_label right_label)
      (Var ''y'' [0, k]) = Free (Var ''y'' [0, k])" if "k < n_labels"
    using that unfolding bound_of_def Bounds_adversarial_mnist
    by (simp only: find_append option.case)
qed

lemma feasible_adversarial_mnist_iff:
  assumes "wrong_label < n_labels" and "right_label < n_labels"
  shows "feasible (adversarial_mnist example n_labels wrong_label right_label) a \<longleftrightarrow>
     (\<forall>j<length example.
        a (Var ''x'' [0, j]) - example ! j \<le> a (Var ''abs_diff'' [0, j]) \<and>
        - a (Var ''x'' [0, j]) + example ! j \<le> a (Var ''abs_diff'' [0, j]) \<and>
        0 \<le> a (Var ''x'' [0, j]) \<and> a (Var ''x'' [0, j]) \<le> 1 \<and>
        0 \<le> a (Var ''abs_diff'' [0, j]) \<and> a (Var ''abs_diff'' [0, j]) \<le> 1) \<and>
     (\<Sum>j<length example. a (Var ''abs_diff'' [0, j])) \<le> delta"
proof -
  let ?M = "adversarial_mnist example n_labels wrong_label right_label"
  have "list_all (in_bounds ?M a) (Vars ?M) \<longleftrightarrow>
      (\<forall>j<length example. in_bounds ?M a (Var ''x'' [0, j]) \<and>
         in_bounds ?M a (Var ''abs_diff'' [0, j])) \<and>
      (\<forall>k<n_labels. in_bounds ?M a (Var ''y'' [0, k]))"
    using assms by (auto simp: list_all_iff set_Vars_adversarial_mnist)
  also have "\<dots> \<longleftrightarrow>
      (\<forall>j<length example. 0 \<le> a (Var ''x'' [0, j]) \<and> a (Var ''x'' [0, j]) \<le> 1 \<and>
         0 \<le> a (Var ''abs_diff'' [0, j]) \<and> a (Var ''abs_diff'' [0, j]) \<le> 1)"
    by (auto simp: in_bounds_def in_range_def bound_of_adversarial_mnist)
  finally show ?thesis
    unfolding feasible_def satisfies_adversarial_mnist by blast
qed

lemma all_less_3: "(\<forall>j<3. P j) \<longleftrightarrow> P 0 \<and> P 1 \<and> P (2::nat)"
  by (auto simp: eval_nat_numeral less_Suc_eq)

lemma small_point_feasible: "feasible (adversarial_mnist small_example 2 1 0) small_point"
proof -
  have len: "length small_example = 3"
    by (simp add: small_example_def)
  have "(1::nat) < 2" and "(0::nat) < 2"
    by simp_all
  note iff = feasible_adversarial_mnist_iff [OF this, of small_example small_point]
  show ?thesis
    unfolding iff len all_less_3
    by (simp add: small_example_def small_point_def delta_def eval_nat_numeral lessThan_Suc)
qed

theorem l1_ball_witness:
  "extends (adversarial_mnist small_example 2 1 0) (adversarial_mnist small_example 2 1 0) \<and>
   feasible (adversarial_mnist small_example 2 1 0) small_point \<and>
   (\<Sum>j<length small_example. \<bar>small_point (Var ''x'' [0, j]) - small_example ! j\<bar>) \<le> 5 \<and>
   (\<Sum>j<length small_example. \<bar>small_point (Var ''x'' [0, j]) - small_example ! j\<bar>) = 1.3 \<and>
   small_point (Var ''x'' [0, 2]) \<le> 1"
proof -
  note b = l1_ball [OF extends_refl small_point_feasible]
  have two: "2 < length small_example"
    by (simp add: small_example_def)
  have "small_point (Var ''x'' [0, 2]) \<le> 1"
    using mp [OF spec [OF conjunct1 [OF b], of 2] two] by blast
  moreover have
    "(\<Sum>j<length small_example. \<bar>small_point (Var ''x'' [0, j]) - small_example ! j\<bar>) = 1.3"
    by (simp add: small_example_def small_point_def eval_nat_numeral lessThan_Suc)
  ultimately show ?thesis
    using conjunct2 [OF b] extends_refl small_point_feasible by blast
qed
section \<open>Properties of the predictor constraint object\<close>

lemma add_predictor_constr_Some:
  assumes "add_predictor_constr s lr input_vars output_vars = Some (s', pc)"
  shows "list_all (\<lambda>xs. length xs = length (coef lr)) input_vars"
    and "length (output_variables pc) = length input_vars"
    and "input_variables pc = input_vars" and "predictor pc = lr"
    and "Model s' = (Model s)
           \<lparr>Bounds := Bounds (Model s) @
              map Free (case output_vars of None \<Rightarrow> output_variables pc | Some ys \<Rightarrow> []),
            Constrs := Constrs (Model s) @
              map (\<lambda>i. linreg_row lr i (input_vars ! i) (output_variables pc ! i))
                [0..<length input_vars]\<rparr>"
    and "Solution s' = Solution s" and "stdout s' = stdout s"
    and "added_constrs pc = length input_vars"
    and "added_vars pc = (case output_vars of None \<Rightarrow> length input_vars | Some ys \<Rightarrow> 0)"
    and "output_vars = Some ys \<Longrightarrow> output_variables pc = ys"
  using assms
  by (auto simp: add_predictor_constr_def Let_def split: if_splits option.splits)


lemma bound_of_extends:
  assumes "extends m m'" and "v \<in> VarName ` set (Bounds m)"
  shows "bound_of m' v = bound_of m v"
proof -
  from assms(2) obtain b where "find (\<lambda>b. VarName b = v) (Bounds m) = Some b"
    by (cases "find (\<lambda>b. VarName b = v) (Bounds m)") (auto simp: find_None_iff)
  with find_extends [OF assms(1) this] show ?thesis
    by (simp add: bound_of_def)
qed

lemma linreg_row_lin_reg:
  "i < 8 \<Longrightarrow> linreg_row lin_reg i (reg_features ! i) (demand ! i) = linreg i"
  by (simp add: linreg_row_def linreg_def lin_reg_def linreg_coefficients_def reg_features_nth
      demand_nth upt_10)

lemma take_25_Subject_To:
  "take 25 Subject_To =
     total_supply # map sold_le_allocated [0..<8] @ map sold_le_demand [0..<8] @
     map wastage [0..<8]"
  unfolding Subject_To_rows by simp

lemma avocado_translation:
  "add_predictor_constr avocado_before lin_reg reg_features (Some demand) =
     Some (avocado_after, avocado_pred_constr)"
proof -
  have rows: "map (\<lambda>i. linreg_row lin_reg i (reg_features ! i) (demand ! i)) [0..<8] =
      map linreg [0..<8]"
    by (rule map_cong) (simp_all add: linreg_row_lin_reg)
  have shape: "list_all (\<lambda>xs. length xs = length (coef lin_reg)) reg_features"
    "length demand = 8" "length reg_features = 8"
    by (simp_all add: reg_features_def demand_def lin_reg_def list_all_iff)
  have "take 25 Subject_To @ map linreg [0..<8] = Subject_To"
    unfolding take_25_Subject_To by (simp add: Subject_To_rows)
  then show ?thesis
    by (simp add: add_predictor_constr_def Let_def shape rows avocado_before_def
        avocado_after_def avocado_pred_constr_def Avocado_Price_Allocation_def)
qed

lemma linreg_rows_of_Avocado:
  "filter (\<lambda>c. fst (ConstrName c) = ''LinearRegressionConstr1.linreg'')
     (Constrs Avocado_Price_Allocation) = map linreg [0..<8]"
proof -
  let ?P = "\<lambda>c. fst (ConstrName c) = ''LinearRegressionConstr1.linreg''"
  have "filter ?P (map sold_le_allocated [0..<8]) = []"
    "filter ?P (map sold_le_demand [0..<8]) = []" "filter ?P (map wastage [0..<8]) = []"
    by (rule filter_map_upt_none; simp add: sold_le_allocated_def sold_le_demand_def wastage_def)+
  moreover have "filter ?P (map linreg [0..<8]) = map linreg [0..<8]"
    by (simp add: linreg_def)
  moreover have "\<not> ?P total_supply"
    by (simp add: total_supply_def)
  ultimately show ?thesis
    by (simp add: Constrs_Avocado Subject_To_rows)
qed

lemma add_predictor_constr_total:
  assumes "list_all (\<lambda>xs. length xs = length (coef lr)) input_vars"
    and "case output_vars of None \<Rightarrow> True | Some ys \<Rightarrow> length ys = length input_vars"
  shows "\<exists>s' pc. add_predictor_constr s lr input_vars output_vars = Some (s', pc)"
  using assms by (cases output_vars) (simp_all add: add_predictor_constr_def Let_def)

text \<open>
  C4. When every input row has as many entries as the regression has coefficients, and
  the output, if given, has as many entries as there are input rows, the call returns;
  the output vector has one entry per input row; and the rows added are exactly one per
  input row \<open>i\<close>, named \<open>LinearRegressionConstr1.linreg[i,0]\<close>, in order.  In the LP
  file, where the input matrix is 8 by 10 and the output has 8 entries, the constraints of
  that name are the eight rows \<open>linreg[0,0]\<close> to \<open>linreg[7,0]\<close>, and row \<open>i\<close> is
  over input row \<open>i\<close> and output \<open>i\<close> only.
\<close>

theorem shape_inference:
  assumes "list_all (\<lambda>xs. length xs = length (coef lr)) input_vars"
    and "case output_vars of None \<Rightarrow> True | Some ys \<Rightarrow> length ys = length input_vars"
  shows "(\<exists>s' pc. add_predictor_constr s lr input_vars output_vars = Some (s', pc) \<and>
            length (output_variables pc) = length input_vars \<and>
            drop (length (Constrs (Model s))) (Constrs (Model s')) =
              map (\<lambda>i. linreg_row lr i (input_vars ! i) (output_variables pc ! i))
                [0..<length input_vars] \<and>
            map ConstrName (drop (length (Constrs (Model s))) (Constrs (Model s'))) =
              map (\<lambda>i. (''LinearRegressionConstr1.linreg'', [i, 0])) [0..<length input_vars] \<and>
            added_constrs pc = length input_vars) \<and>
         length reg_features = 8 \<and> list_all (\<lambda>xs. length xs = 10) reg_features \<and>
         length demand = 8 \<and>
         filter (\<lambda>c. fst (ConstrName c) = ''LinearRegressionConstr1.linreg'')
           (Constrs Avocado_Price_Allocation) = map linreg [0..<8] \<and>
         map ConstrName (map linreg [0..<8]) =
           map (\<lambda>i. (''LinearRegressionConstr1.linreg'', [i, 0])) [0..<8] \<and>
         (\<forall>i<8. map snd (Row (linreg i)) = reg_features ! i @ [demand ! i])"
proof (intro conjI allI impI)
  from add_predictor_constr_total [OF assms] obtain s' pc
    where a: "add_predictor_constr s lr input_vars output_vars = Some (s', pc)"
    by blast
  note r = add_predictor_constr_Some [OF a]
  have "drop (length (Constrs (Model s))) (Constrs (Model s')) =
      map (\<lambda>i. linreg_row lr i (input_vars ! i) (output_variables pc ! i))
        [0..<length input_vars]"
    by (simp add: r(5))
  moreover from this
  have "map ConstrName (drop (length (Constrs (Model s))) (Constrs (Model s'))) =
      map (\<lambda>i. (''LinearRegressionConstr1.linreg'', [i, 0])) [0..<length input_vars]"
    by (simp add: linreg_row_def comp_def)
  ultimately show "\<exists>s' pc. add_predictor_constr s lr input_vars output_vars = Some (s', pc) \<and>
      length (output_variables pc) = length input_vars \<and>
      drop (length (Constrs (Model s))) (Constrs (Model s')) =
        map (\<lambda>i. linreg_row lr i (input_vars ! i) (output_variables pc ! i))
          [0..<length input_vars] \<and>
      map ConstrName (drop (length (Constrs (Model s))) (Constrs (Model s'))) =
        map (\<lambda>i. (''LinearRegressionConstr1.linreg'', [i, 0])) [0..<length input_vars] \<and>
      added_constrs pc = length input_vars"
    using a r(2,8) by blast
next
  fix i :: nat assume "i < 8"
  then show "map snd (Row (linreg i)) = reg_features ! i @ [demand ! i]"
    by (simp add: Row_linreg reg_features_nth demand_nth)
qed (simp_all add: linreg_rows_of_Avocado reg_features_def demand_def list_all_iff linreg_def
    comp_def)

theorem shape_inference_witness:
  "add_predictor_constr avocado_before lin_reg reg_features (Some demand) =
     Some (avocado_after, avocado_pred_constr) \<and>
   length (output_variables avocado_pred_constr) = 8 \<and>
   map ConstrName (drop 25 (Constrs (Model avocado_after))) =
     [(''LinearRegressionConstr1.linreg'', [0, 0]), (''LinearRegressionConstr1.linreg'', [1, 0]),
      (''LinearRegressionConstr1.linreg'', [2, 0]), (''LinearRegressionConstr1.linreg'', [3, 0]),
      (''LinearRegressionConstr1.linreg'', [4, 0]), (''LinearRegressionConstr1.linreg'', [5, 0]),
      (''LinearRegressionConstr1.linreg'', [6, 0]), (''LinearRegressionConstr1.linreg'', [7, 0])]"
proof -
  have shape: "list_all (\<lambda>xs. length xs = length (coef lin_reg)) reg_features"
    "case Some demand of None \<Rightarrow> True | Some ys \<Rightarrow> length ys = length reg_features"
    by (auto simp: reg_features_def demand_def lin_reg_def list_all_iff)
  note sh = shape_inference [OF shape, where s = avocado_before]
  have len: "length (Constrs (Model avocado_before)) = 25" "length reg_features = 8"
    by (simp_all add: avocado_before_def Avocado_Price_Allocation_def take_25_Subject_To
        reg_features_def)
  from conjunct1 [OF sh] avocado_translation
  have "length (output_variables avocado_pred_constr) = length reg_features \<and>
      map ConstrName (drop (length (Constrs (Model avocado_before)))
        (Constrs (Model avocado_after))) =
      map (\<lambda>i. (''LinearRegressionConstr1.linreg'', [i, 0])) [0..<length reg_features]"
    by auto
  then show ?thesis
    using avocado_translation by (simp add: len upt_8)
qed

lemma eval_row_map2_neg:
  "eval_row a (map2 (\<lambda>c v. (- c, v)) cs xs) = - sum_list (map2 (\<lambda>c v. c * v) cs (map a xs))"
proof (induction cs arbitrary: xs)
  case Nil
  then show ?case by (simp add: eval_row_def)
next
  case (Cons c cs)
  then show ?case by (cases xs) (simp_all add: eval_row_def)
qed

lemma violation_linreg_row:
  "eval_row a (Row (linreg_row lr i xs y)) - RHS (linreg_row lr i xs y) =
     a y - predict lr (map a xs)"
  by (simp add: linreg_row_def eval_row_append eval_row_map2_neg predict_def)
    (simp add: eval_row_def)

lemma satisfies_linreg_row:
  "satisfies a (linreg_row lr i xs y) \<longleftrightarrow> a y = predict lr (map a xs)"
proof -
  have "satisfies a (linreg_row lr i xs y) \<longleftrightarrow>
      eval_row a (Row (linreg_row lr i xs y)) - RHS (linreg_row lr i xs y) = 0"
    by (simp add: satisfies_def linreg_row_def)
  then show ?thesis
    unfolding violation_linreg_row by simp
qed

lemma optimize_feasible:
  assumes "optimize s s'" and "Solution s' = Some a"
  shows "feasible (Model s) a"
  using assms by (cases rule: optimize.cases) auto

text \<open>
  C2. With a solution \<open>sol\<close>, \<open>get_error\<close> of the object returned by the translation
  gives one entry per input row, as many as there are outputs: the distance between the
  prediction on the row's input values and the value of the row's output variable, which
  is also the amount by which \<open>sol\<close> violates the row's constraint.  No entry is
  negative; all are at most 0 exactly when \<open>sol\<close> satisfies the added rows; their
  maximum is at most \<open>eps\<close> exactly when every row's distance is; and after
  \<open>optimize\<close> on the translated model every entry is 0.
\<close>

theorem get_error_measures:
  assumes add: "add_predictor_constr s lr input_vars output_vars = Some (s1, pc)"
    and sol: "Solution s2 = Some sol"
  shows "\<exists>errs. get_error pc s2 = Some errs \<and>
           length errs = length input_vars \<and> length errs = length (output_variables pc) \<and>
           (\<forall>i<length input_vars.
              errs ! i =
                \<bar>predict lr (map sol (input_vars ! i)) - sol (output_variables pc ! i)\<bar> \<and>
              errs ! i =
                \<bar>eval_row sol (Row (Constrs (Model s1) ! (length (Constrs (Model s)) + i))) -
                 RHS (Constrs (Model s1) ! (length (Constrs (Model s)) + i))\<bar>) \<and>
           (\<forall>e\<in>set errs. 0 \<le> e) \<and>
           ((\<forall>e\<in>set errs. e \<le> 0) \<longleftrightarrow>
              list_all (satisfies sol)
                (drop (length (Constrs (Model s))) (Constrs (Model s1)))) \<and>
           (input_vars \<noteq> [] \<longrightarrow>
              (\<forall>eps. Max (set errs) \<le> eps \<longleftrightarrow>
                 (\<forall>i<length input_vars.
                    \<bar>predict lr (map sol (input_vars ! i)) - sol (output_variables pc ! i)\<bar>
                      \<le> eps))) \<and>
           (optimize s1 s2 \<longrightarrow> errs = replicate (length input_vars) 0)"
proof -
  note r = add_predictor_constr_Some [OF add]
  let ?n = "length input_vars"
  let ?err = "\<lambda>i. \<bar>predict lr (map sol (input_vars ! i)) - sol (output_variables pc ! i)\<bar>"
  let ?row = "\<lambda>i. linreg_row lr i (input_vars ! i) (output_variables pc ! i)"
  define errs where "errs = map ?err [0..<?n]"
  have get: "get_error pc s2 = Some errs"
    unfolding get_error_def sol errs_def option.case r(3,4)
    by (rule arg_cong [where f = Some], rule nth_equalityI) (simp_all add: r(2))
  have len: "length errs = ?n"
    by (simp add: errs_def)
  have nth: "errs ! i = ?err i" if "i < ?n" for i
    using that by (simp add: errs_def)
  have rows: "drop (length (Constrs (Model s))) (Constrs (Model s1)) = map ?row [0..<?n]"
    by (simp add: r(5))
  have row: "Constrs (Model s1) ! (length (Constrs (Model s)) + i) = ?row i" if "i < ?n" for i
    using that by (simp add: r(5) nth_append)
  have viol: "\<bar>eval_row sol (Row (?row i)) - RHS (?row i)\<bar> = ?err i" for i
    unfolding violation_linreg_row by (rule abs_minus_commute)
  have set_errs: "set errs = ?err ` {..<?n}"
    by (simp add: errs_def atLeast0LessThan)
  have zero: "(\<forall>e\<in>set errs. e \<le> 0) \<longleftrightarrow> list_all (satisfies sol) (map ?row [0..<?n])"
    by (auto simp: set_errs list_all_iff satisfies_linreg_row)
  have max: "Max (set errs) \<le> eps \<longleftrightarrow> (\<forall>i<?n. ?err i \<le> eps)" if "input_vars \<noteq> []" for eps
  proof -
    have "set errs \<noteq> {}" using that by (simp add: errs_def)
    then show ?thesis by (simp add: Max_le_iff) (auto simp: set_errs)
  qed
  have solved: "errs = replicate ?n 0" if "optimize s1 s2"
  proof -
    have "feasible (Model s1) sol"
      using that sol by (rule optimize_feasible)
    then have "list_all (satisfies sol) (map ?row [0..<?n])"
      by (simp add: feasible_def r(5))
    then have "?err i = 0" if "i < ?n" for i
      using that by (simp add: list_all_iff satisfies_linreg_row)
    then show ?thesis
      by (intro nth_equalityI) (simp_all add: len nth)
  qed
  show ?thesis
  proof (intro exI [of _ errs] conjI allI impI ballI)
    fix i assume "i < ?n"
    then show "errs ! i =
        \<bar>eval_row sol (Row (Constrs (Model s1) ! (length (Constrs (Model s)) + i))) -
         RHS (Constrs (Model s1) ! (length (Constrs (Model s)) + i))\<bar>"
      by (simp add: row viol nth)
  next
    fix e assume "e \<in> set errs"
    then show "0 \<le> e" by (auto simp: set_errs)
  qed (use get len nth r(2) zero rows max solved in simp_all)
qed

theorem get_error_measures_witness:
  "optimize avocado_after (avocado_after\<lparr>Solution := Some avocado_point\<rparr>) \<and>
   get_error avocado_pred_constr (avocado_after\<lparr>Solution := Some avocado_point\<rparr>) =
     Some [0, 0, 0, 0, 0, 0, 0, 0] \<and>
   get_error avocado_pred_constr (avocado_after\<lparr>Solution := Some (\<lambda>v. 0)\<rparr>) =
     Some (replicate 8 5.439310052165032)"
proof -
  let ?s2 = "avocado_after\<lparr>Solution := Some avocado_point\<rparr>"
  have "feasible (Model avocado_after) avocado_point"
    using avocado_point_feasible by (simp add: avocado_after_def)
  then have opt: "optimize avocado_after ?s2"
    by (rule optimize.solved)
  have "Solution ?s2 = Some avocado_point"
    by simp
  from get_error_measures [OF avocado_translation this] opt
  have "get_error avocado_pred_constr ?s2 = Some (replicate (length reg_features) 0)"
    by blast
  then have "get_error avocado_pred_constr ?s2 = Some [0, 0, 0, 0, 0, 0, 0, 0]"
    by (simp add: reg_features_def eval_nat_numeral)
  moreover have "get_error avocado_pred_constr (avocado_after\<lparr>Solution := Some (\<lambda>v. 0)\<rparr>) =
      Some (replicate 8 5.439310052165032)"
    by (simp add: get_error_def avocado_pred_constr_def reg_features_def demand_def predict_def
        lin_reg_def upt_8 upt_10 eval_nat_numeral)
  ultimately show ?thesis
    using opt by blast
qed

text \<open>
  C9. \<open>print_stats\<close> leaves the model and the solution as they are and prints two
  lines, the count of added variables and the count of added constraints; a second call
  prints the same two lines again.  The counts are those of what the translation added:
  the differences in the number of declared variables and of rows between the model
  before the call of \<open>add_predictor_constr\<close> and after it.
\<close>

theorem print_stats_reports:
  "Model (print_stats pc s) = Model s \<and> Solution (print_stats pc s) = Solution s \<and>
   stdout (print_stats pc s) =
     stdout s @ [(''variables'', added_vars pc), (''constraints'', added_constrs pc)] \<and>
   stdout (print_stats pc (print_stats pc s)) =
     stdout s @ [(''variables'', added_vars pc), (''constraints'', added_constrs pc)] @
       [(''variables'', added_vars pc), (''constraints'', added_constrs pc)] \<and>
   (\<forall>s0 lr input_vars output_vars.
      add_predictor_constr s0 lr input_vars output_vars = Some (s, pc) \<longrightarrow>
      added_vars pc = length (Bounds (Model s)) - length (Bounds (Model s0)) \<and>
      added_constrs pc = length (Constrs (Model s)) - length (Constrs (Model s0)))"
proof (intro conjI allI impI)
  fix s0 lr input_vars output_vars
  assume a: "add_predictor_constr s0 lr input_vars output_vars = Some (s, pc)"
  note r = add_predictor_constr_Some [OF a]
  show "added_vars pc = length (Bounds (Model s)) - length (Bounds (Model s0))"
    using r(2) by (cases output_vars) (simp_all add: r(5,9))
  show "added_constrs pc = length (Constrs (Model s)) - length (Constrs (Model s0))"
    by (simp add: r(5,8))
qed (simp_all add: print_stats_def)

theorem print_stats_reports_witness:
  "add_predictor_constr avocado_before lin_reg reg_features (Some demand) =
     Some (avocado_after, avocado_pred_constr) \<and>
   Model (print_stats avocado_pred_constr avocado_after) = Avocado_Price_Allocation \<and>
   stdout (print_stats avocado_pred_constr avocado_after) =
     [(''variables'', 0), (''constraints'', 8)] \<and>
   length (Constrs (Model avocado_after)) - length (Constrs (Model avocado_before)) = 8"
proof -
  note p = print_stats_reports [of avocado_pred_constr avocado_after]
  have "added_constrs avocado_pred_constr =
      length (Constrs (Model avocado_after)) - length (Constrs (Model avocado_before))"
    using p avocado_translation by blast
  then have "length (Constrs (Model avocado_after)) - length (Constrs (Model avocado_before)) = 8"
    by (simp add: avocado_pred_constr_def)
  moreover have "stdout (print_stats avocado_pred_constr avocado_after) =
      [(''variables'', 0), (''constraints'', 8)]"
    using p by (simp add: avocado_pred_constr_def avocado_after_def)
  moreover have "Model (print_stats avocado_pred_constr avocado_after) = Avocado_Price_Allocation"
    using p by (simp add: avocado_after_def)
  ultimately show ?thesis
    using avocado_translation by blast
qed
section \<open>Properties of the price optimization notebook\<close>

text \<open>
  The rows that the notebook's calls store are the rows \<open>R0\<close> to \<open>R24\<close> of the LP
  file, name by name.
\<close>

lemma length_regions: "length regions = 8"
  by (simp add: regions_def)

lemma concat_Series: "concat [Series n k] = map (\<lambda>i. ([(1, Var n [i])], 0)) [0..<k]"
  by (simp add: Series_def)

lemma concat_series_minus:
  "concat [series_minus (Series n k) (Series n' k)] =
     map (\<lambda>i. ([(1, Var n [i]), (- 1, Var n' [i])], 0)) [0..<k]"
  by (auto simp: series_minus_def Series_def negate_def intro!: nth_equalityI)

lemma msum_Series: "msum [Series n k] = (map (\<lambda>i. (1, Var n [i])) [0..<k], 0)"
  unfolding msum_def concat_Series by (simp add: comp_def)

lemma Constrs_price_optimization:
  "Constrs price_optimization =
     as_row 0 (map (\<lambda>i. (1, Var ''x'' [i])) [0..<8], 0) EQUAL (const B) #
     map (\<lambda>i. as_row (1 + i) ([(1, Var ''s'' [i])], 0) LESS_EQUAL ([(1, Var ''x'' [i])], 0))
       [0..<8] @
     map (\<lambda>i. as_row (9 + i) ([(1, Var ''s'' [i])], 0) LESS_EQUAL ([(1, Var ''demand'' [i])], 0))
       [0..<8] @
     map (\<lambda>i. as_row (17 + i) ([(1, Var ''w'' [i])], 0) EQUAL
                  ([(1, Var ''x'' [i]), (- 1, Var ''s'' [i])], 0)) [0..<8]"
  unfolding price_optimization_def Let_def length_regions add_constrs_def addConstr_def
    addMConstr_def concat_Series concat_series_minus msum_Series zip_map_upt enumerate_map_upt
  by (simp add: Model_init_def add_vars_def setObjective_quadratic_def comp_def)

lemma same_rows_map:
  assumes "\<And>i. i < n \<Longrightarrow> same_row (f i) (g i)"
  shows "list_all2 same_row (map f [0..<n]) (map g [0..<n])"
  using assms by (simp add: list_all2_conv_all_nth)

lemma price_optimization_rows:
  "list_all2 same_row (Constrs price_optimization) (take 25 Subject_To)"
  unfolding Constrs_price_optimization take_25_Subject_To
proof (intro list_all2_appendI list.rel_intros(2) same_rows_map)
  show "same_row (as_row 0 (map (\<lambda>i. (1, Var ''x'' [i])) [0..<8], 0) EQUAL (const B))
      total_supply"
    by (simp add: same_row_def as_row_def total_supply_def const_def B_def negate_def)
qed (simp_all add: same_row_def as_row_def sold_le_allocated_def sold_le_demand_def wastage_def
    negate_def eval_row_def)

lemma same_row_satisfies: "same_row c c' \<Longrightarrow> satisfies a c = satisfies a c'"
  by (simp add: same_row_def satisfies_def)

lemma same_rows_satisfy:
  "list_all2 same_row cs cs' \<Longrightarrow> list_all (satisfies a) cs = list_all (satisfies a) cs'"
  by (induction rule: list_all2_induct) (simp_all add: same_row_satisfies)

lemma satisfies_price_optimization:
  "list_all (satisfies a) (Constrs price_optimization) \<longleftrightarrow>
     (\<Sum>i<8. a (Var ''x'' [i])) = 30 \<and>
     (\<forall>i<8. a (Var ''s'' [i]) \<le> a (Var ''x'' [i]) \<and>
            a (Var ''s'' [i]) \<le> a (Var ''demand'' [i]) \<and>
            a (Var ''w'' [i]) = a (Var ''x'' [i]) - a (Var ''s'' [i]))"
  unfolding same_rows_satisfy [OF price_optimization_rows] take_25_Subject_To
  by (simp add: list.pred_map comp_def satisfies_total_supply satisfies_sold_le_allocated
      satisfies_sold_le_demand satisfies_wastage) (auto simp: list_all_iff)

lemma Bounds_price_optimization:
  "Bounds price_optimization =
     map (\<lambda>i. Between a_min (Var ''price'' [i]) a_max) [0..<8] @
     map (\<lambda>i. Between (min_delivery ! i) (Var ''x'' [i]) (max_delivery ! i)) [0..<8] @
     map (\<lambda>i. Bound (Some 0) (Var ''s'' [i]) None) [0..<8] @
     map (\<lambda>i. Bound (Some 0) (Var ''w'' [i]) None) [0..<8] @
     map (\<lambda>i. Free (Var ''demand'' [i])) [0..<8]"
  by (simp add: price_optimization_def Let_def length_regions add_constrs_def addConstr_def
      addMConstr_def add_vars_def setObjective_quadratic_def Model_init_def)

lemma find_map_other:
  "(\<And>k. VarName (f k) \<noteq> v) \<Longrightarrow> find (\<lambda>b. VarName b = v) (map f [0..<n]) = None"
  by (rule find_no_match) auto

lemma find_map_same:
  "i < n \<Longrightarrow> (\<And>k. VarName (f k) = Var name [k]) \<Longrightarrow>
     find (\<lambda>b. VarName b = Var name [i]) (map f [0..<n]) = Some (f i)"
  by (rule find_map_upt) auto

lemma find_price_optimization:
  assumes "i < 8"
  shows "find (\<lambda>b. VarName b = Var ''x'' [i]) (Bounds price_optimization) =
           Some (Between (min_delivery ! i) (Var ''x'' [i]) (max_delivery ! i))"
    and "find (\<lambda>b. VarName b = Var ''s'' [i]) (Bounds price_optimization) =
           Some (Bound (Some 0) (Var ''s'' [i]) None)"
    and "find (\<lambda>b. VarName b = Var ''w'' [i]) (Bounds price_optimization) =
           Some (Bound (Some 0) (Var ''w'' [i]) None)"
    and "find (\<lambda>b. VarName b = Var ''demand'' [i]) (Bounds price_optimization) =
           Some (Free (Var ''demand'' [i]))"
  unfolding Bounds_price_optimization
  by (simp_all add: find_append find_map_other find_map_same assms)

lemma Obj_price_optimization:
  "Obj price_optimization =
     map (\<lambda>i. (- c_waste, Var ''w'' [i])) [0..<8] @
     map (\<lambda>i. (- (c_transport ! i), Var ''x'' [i])) [0..<8]"
  "QObj price_optimization = map (\<lambda>i. (2, Var ''price'' [i], Var ''s'' [i])) [0..<8]"
  by (simp_all add: price_optimization_def Let_def length_regions add_constrs_def addConstr_def
      addMConstr_def add_vars_def setObjective_quadratic_def Model_init_def comp_def)

lemma set_Vars_price_optimization:
  "set (Vars price_optimization) =
     (\<Union>i<8. {Var ''price'' [i], Var ''x'' [i], Var ''s'' [i], Var ''w'' [i],
              Var ''demand'' [i]})"
  unfolding Vars_def Constrs_price_optimization Bounds_price_optimization
    Obj_price_optimization
  by (auto simp: as_row_def negate_def const_def image_iff)

lemma bound_of_price_optimization:
  assumes "i < 8"
  shows "bound_of price_optimization (Var ''price'' [i]) = Between a_min (Var ''price'' [i]) a_max"
    and "bound_of price_optimization (Var ''x'' [i]) =
           Between (min_delivery ! i) (Var ''x'' [i]) (max_delivery ! i)"
    and "bound_of price_optimization (Var ''s'' [i]) = Bound (Some 0) (Var ''s'' [i]) None"
    and "bound_of price_optimization (Var ''w'' [i]) = Bound (Some 0) (Var ''w'' [i]) None"
    and "bound_of price_optimization (Var ''demand'' [i]) = Free (Var ''demand'' [i])"
  unfolding bound_of_def find_price_optimization [OF assms]
  by (simp_all add: Bounds_price_optimization find_append find_map_same assms)

lemma feasible_price_optimization_iff:
  "feasible price_optimization a \<longleftrightarrow>
     (\<Sum>i<8. a (Var ''x'' [i])) = 30 \<and>
     (\<forall>i<8. a (Var ''s'' [i]) \<le> a (Var ''x'' [i]) \<and>
            a (Var ''s'' [i]) \<le> a (Var ''demand'' [i]) \<and>
            a (Var ''w'' [i]) = a (Var ''x'' [i]) - a (Var ''s'' [i]) \<and>
            min_delivery ! i \<le> a (Var ''x'' [i]) \<and> a (Var ''x'' [i]) \<le> max_delivery ! i \<and>
            0 \<le> a (Var ''s'' [i]) \<and> 0 \<le> a (Var ''w'' [i]) \<and>
            a_min \<le> a (Var ''price'' [i]) \<and> a (Var ''price'' [i]) \<le> a_max)"
proof -
  have "list_all (in_bounds price_optimization a) (Vars price_optimization) \<longleftrightarrow>
      (\<forall>i<8. in_bounds price_optimization a (Var ''price'' [i]) \<and>
         in_bounds price_optimization a (Var ''x'' [i]) \<and>
         in_bounds price_optimization a (Var ''s'' [i]) \<and>
         in_bounds price_optimization a (Var ''w'' [i]) \<and>
         in_bounds price_optimization a (Var ''demand'' [i]))"
    by (auto simp: list_all_iff set_Vars_price_optimization)
  also have "\<dots> \<longleftrightarrow>
      (\<forall>i<8. min_delivery ! i \<le> a (Var ''x'' [i]) \<and> a (Var ''x'' [i]) \<le> max_delivery ! i \<and>
         0 \<le> a (Var ''s'' [i]) \<and> 0 \<le> a (Var ''w'' [i]) \<and>
         a_min \<le> a (Var ''price'' [i]) \<and> a (Var ''price'' [i]) \<le> a_max)"
    by (auto simp: in_bounds_def in_range_def bound_of_price_optimization)
  finally show ?thesis
    unfolding feasible_def satisfies_price_optimization by blast
qed

lemma avocado_point_feasible_notebook: "feasible price_optimization avocado_point"
  unfolding feasible_price_optimization_iff
proof (intro conjI allI impI)
  show "(\<Sum>i<8. avocado_point (Var ''x'' [i])) = 30"
    by (simp add: sum_less_8 avocado_point_def)
next
  fix i :: nat assume "i < 8"
  then show "avocado_point (Var ''s'' [i]) \<le> avocado_point (Var ''demand'' [i])"
    by (simp add: avocado_point_demand avocado_point_prediction)
next
  fix i :: nat
  show "a_min \<le> avocado_point (Var ''price'' [i])" "avocado_point (Var ''price'' [i]) \<le> a_max"
    by (simp_all add: avocado_point_def a_min_def a_max_def)
qed (use avocado_point_allocation in blast)+

lemma declared_price_optimization:
  "VarName ` set (Bounds price_optimization) = set (Vars price_optimization)"
  unfolding set_Vars_price_optimization Bounds_price_optimization
  by (simp add: image_Un image_image) (auto simp: atLeast0LessThan)

lemma extends_price_optimization:
  assumes ext: "extends price_optimization m" and feas: "feasible m a"
  shows "feasible price_optimization a"
proof -
  have rows: "list_all (satisfies a) (Constrs price_optimization)"
    using ext feas by (auto simp: feasible_def intro: satisfies_extends)
  have "in_bounds price_optimization a v" if v: "v \<in> set (Vars price_optimization)" for v
  proof -
    have declared: "v \<in> VarName ` set (Bounds price_optimization)"
      using v by (simp add: declared_price_optimization)
    then have "v \<in> set (Vars m)"
      using declared_extends [OF ext] by blast
    then have "in_bounds m a v"
      using feas by (simp add: feasible_def list_all_iff)
    then show ?thesis
      by (simp add: in_bounds_def bound_of_extends [OF ext declared])
  qed
  then show ?thesis
    using rows by (simp add: feasible_def list_all_iff)
qed

lemma ObjVal_price_optimization:
  "ObjVal price_optimization a =
     (\<Sum>i<8. a (Var ''price'' [i]) * a (Var ''s'' [i])) -
     (\<Sum>i<8. c_waste * a (Var ''w'' [i])) -
     (\<Sum>i<8. c_transport ! i * a (Var ''x'' [i]))"
  by (simp add: ObjVal_def Obj_price_optimization eval_row_def comp_def sum_list_upt sum_negf
      sum_divide_distrib)

text \<open>
  The notebook's objective is the objective of the LP file, with the price of a region in
  the place of column 8 of the feature matrix; and the session before the regression is
  added has the rows of the notebook.
\<close>

lemma price_optimization_objective:
  assumes "\<And>i. i < 8 \<Longrightarrow> a (Var ''price'' [i]) = a (Var ''reg_features'' [i, 8])"
  shows "ObjVal price_optimization a = ObjVal Avocado_Price_Allocation a"
  unfolding ObjVal_price_optimization ObjVal_Avocado
  using assms by (simp add: mult.commute)

lemma avocado_before_rows:
  "list_all2 same_row (Constrs price_optimization) (Constrs (Model avocado_before))"
  using price_optimization_rows by (simp add: avocado_before_def)

text \<open>
  C6. Material balance, in the model of the LP file and in every model that extends the
  notebook's: at every feasible point the allocations add up to the supply 30, and in each
  region the allocation is the sold amount plus the waste, the sold amount is at most the
  allocation and at most the demand, and the sold amount and the waste are not negative.
\<close>

theorem material_balance:
  assumes "m = Avocado_Price_Allocation \<or> extends price_optimization m"
    and "feasible m a"
  shows "(\<Sum>i<8. a (Var ''x'' [i])) = 30 \<and>
    (\<forall>i<8. a (Var ''x'' [i]) = a (Var ''s'' [i]) + a (Var ''w'' [i]) \<and>
       a (Var ''s'' [i]) \<le> a (Var ''x'' [i]) \<and>
       a (Var ''s'' [i]) \<le> a (Var ''demand'' [i]) \<and>
       0 \<le> a (Var ''s'' [i]) \<and> 0 \<le> a (Var ''w'' [i]) \<and>
       a (Var ''w'' [i]) = a (Var ''x'' [i]) - a (Var ''s'' [i]))"
proof -
  have "(\<Sum>i<8. a (Var ''x'' [i])) = 30 \<and>
      (\<forall>i<8. a (Var ''s'' [i]) \<le> a (Var ''x'' [i]) \<and>
         a (Var ''s'' [i]) \<le> a (Var ''demand'' [i]) \<and>
         a (Var ''w'' [i]) = a (Var ''x'' [i]) - a (Var ''s'' [i]) \<and>
         0 \<le> a (Var ''s'' [i]) \<and> 0 \<le> a (Var ''w'' [i]))"
    using assms(1)
  proof
    assume "m = Avocado_Price_Allocation"
    with assms(2) have "feasible Avocado_Price_Allocation a"
      by simp
    from feasible_AvocadoD [OF this] show ?thesis
      by blast
  next
    assume "extends price_optimization m"
    then have "feasible price_optimization a"
      using assms(2) by (rule extends_price_optimization)
    then show ?thesis
      unfolding feasible_price_optimization_iff by blast
  qed
  then show ?thesis
    by (intro conjI allI impI) (simp, force+)
qed

theorem material_balance_witness:
  "feasible Avocado_Price_Allocation avocado_point \<and>
   extends price_optimization price_optimization \<and>
   feasible price_optimization avocado_point \<and>
   (\<Sum>i<8. avocado_point (Var ''x'' [i])) = 30 \<and>
   avocado_point (Var ''x'' [3]) = avocado_point (Var ''s'' [3]) + avocado_point (Var ''w'' [3]) \<and>
   avocado_point (Var ''s'' [3]) \<le> avocado_point (Var ''demand'' [3]) \<and>
   avocado_point (Var ''w'' [3]) = 0.25"
proof -
  have lp: "Avocado_Price_Allocation = Avocado_Price_Allocation \<or>
      extends price_optimization Avocado_Price_Allocation"
    by simp
  have nb: "price_optimization = Avocado_Price_Allocation \<or>
      extends price_optimization price_optimization"
    by (simp add: extends_refl)
  note mb = material_balance [OF lp avocado_point_feasible]
    and mb' = material_balance [OF nb avocado_point_feasible_notebook]
  have row: "avocado_point (Var ''x'' [3]) = avocado_point (Var ''s'' [3]) + avocado_point (Var ''w'' [3]) \<and>
       avocado_point (Var ''s'' [3]) \<le> avocado_point (Var ''x'' [3]) \<and>
       avocado_point (Var ''s'' [3]) \<le> avocado_point (Var ''demand'' [3]) \<and>
       0 \<le> avocado_point (Var ''s'' [3]) \<and> 0 \<le> avocado_point (Var ''w'' [3]) \<and>
       avocado_point (Var ''w'' [3]) = avocado_point (Var ''x'' [3]) - avocado_point (Var ''s'' [3])"
    by (rule mp [OF spec [OF conjunct2 [OF mb]]]) simp
  have w: "avocado_point (Var ''w'' [3]) = 0.25"
    by (simp add: avocado_point_def)
  show ?thesis
    using avocado_point_feasible avocado_point_feasible_notebook extends_refl
      conjunct1 [OF mb'] row w by blast
qed

subsection \<open>The model before and after the call\<close>










end
